theory Spec2Isabelle
  imports Main "HOL-Library.Sublist"
begin

section \<open>WiFi AutoLogin: the service worker's remediation engine\<close>

text \<open>
  A shallow embedding of \<^verbatim>\<open>service_worker.js\<close>. The worker's module-level variables are
  one record that every function takes and returns. Everything the browser answers during
  one call (fetch outcomes, tab queries, script results, clock readings) is an argument: a
  record with one field per call site. Every effect on the outside world is appended to a
  trace.

  One call is modelled from its start to its return. Calls that overlap in time (an alarm
  firing while a forced attempt waits at an \<^verbatim>\<open>await\<close>) are not interleaved here; the state
  a call starts from is arbitrary, so it may already hold origins in flight.
\<close>

subsection \<open>Strings\<close>

text \<open>
  Strings are lists of 8-bit characters. \<open>toLowerCase\<close> maps the letters A to Z and leaves
  every other character alone, which is what JavaScript does on ASCII text.
\<close>

definition lowerChar :: "char \<Rightarrow> char" where
  "lowerChar c =
     (case map_of (zip ''ABCDEFGHIJKLMNOPQRSTUVWXYZ'' ''abcdefghijklmnopqrstuvwxyz'') c of
        Some d \<Rightarrow> d
      | None \<Rightarrow> c)"

definition toLowerCase :: "string \<Rightarrow> string" where
  "toLowerCase s = map lowerChar s"

text \<open>\<^verbatim>\<open>s.includes(pat)\<close>: \<open>pat\<close> occurs in \<open>s\<close> as a contiguous run.\<close>

fun str_includes :: "string \<Rightarrow> string \<Rightarrow> bool" where
  "str_includes pat [] = (pat = [])"
| "str_includes pat (c # cs) = (prefix pat (c # cs) \<or> str_includes pat cs)"

definition startsWith :: "string \<Rightarrow> string \<Rightarrow> bool" where
  "startsWith s p = prefix p s"

text \<open>
  \<^verbatim>\<open>/a|b|c/.test(s)\<close> for an alternation of literal words: one of the words occurs in
  \<open>s\<close>.
\<close>

definition testAny :: "string list \<Rightarrow> string \<Rightarrow> bool" where
  "testAny pats s = list_ex (\<lambda>p. str_includes p s) pats"

subsection \<open>Helpers\<close>

text \<open>
  \<^verbatim>\<open>function originOf(urlStr) { try { return new URL(urlStr).origin; } catch (e) { return urlStr || ''; } }\<close>

  The platform's URL parser is the parameter \<open>urlOrigin\<close>: \<open>Some\<close> the origin of a string
  that parses, \<open>None\<close> when the constructor throws. An absent argument (\<open>undefined\<close>) never
  parses, so the constructor throws on it.
\<close>

definition originOf :: "(string \<Rightarrow> string option) \<Rightarrow> string option \<Rightarrow> string" where
  "originOf urlOrigin urlStr =
     (case urlStr of
        None \<Rightarrow> ''''
      | Some u \<Rightarrow> (case urlOrigin u of Some org \<Rightarrow> org | None \<Rightarrow> u))"

text \<open>JavaScript truthiness of a tab identifier that may be \<open>null\<close>: 0 is falsy.\<close>

fun truthy :: "nat option \<Rightarrow> bool" where
  "truthy None = False"
| "truthy (Some n) = (n \<noteq> 0)"

subsection \<open>The trace of effects\<close>

datatype event =
    Fetch
  | Sleep int
  | Notify string
  | TabsQuery
  | TabsGet nat
  | TabsCreate string "nat option"
  | TabsDeactivate nat
  | TabsNavigate nat string
  | TabsReload nat
  | TabsRemove nat
  | WaitLoaded nat int
  | ExecKeepalive nat
  | ExecDetect nat
  | ExecInject nat
  | CallOpenPortalTabAndSubmit

subsection \<open>ConnectivityProbe\<close>

text \<open>
  One fetch of the generate-204 endpoint either answers with a status or fails (a network
  error, or the abort at the timeout). \<open>isInternetUp\<close> makes one fetch and, unless it
  answered 204, sleeps 300 ms and makes a second one. It never throws.
\<close>

datatype fetch_outcome = Status nat | FetchFailed

type_synonym probe = "fetch_outcome \<times> fetch_outcome"

definition isInternetUp :: "probe \<Rightarrow> bool" where
  "isInternetUp p = (if fst p = Status 204 then True else snd p = Status 204)"

definition probeEvents :: "probe \<Rightarrow> event list" where
  "probeEvents p = (if fst p = Status 204 then [Fetch] else [Fetch, Sleep 300, Fetch])"

subsection \<open>FieldDetector and the injector's field choice\<close>

record input =
  inp_name :: string
  inp_id :: string
  inp_type :: string
  inp_placeholder :: string

definition usernameWords :: "string list" where
  "usernameWords = [''user'', ''login'', ''email'', ''username'', ''id'']"

definition isPasswordInput :: "input \<Rightarrow> bool" where
  "isPasswordInput i = (toLowerCase (inp_type i) = ''password'')"

text \<open>The detector's test of one input (the callback of \<^verbatim>\<open>hasUser\<close> in \<^verbatim>\<open>detectFieldsInTab\<close>).\<close>

definition detectorLikelyUser :: "input \<Rightarrow> bool" where
  "detectorLikelyUser i =
     (let meta = toLowerCase (inp_name i @ '' '' @ inp_id i @ '' '' @ inp_placeholder i)
      in testAny usernameWords meta \<or> (inp_type i = ''text'' \<or> inp_type i = ''email''))"

definition detectFrame :: "input list \<Rightarrow> bool" where
  "detectFrame inputs = (list_ex isPasswordInput inputs \<and> list_ex detectorLikelyUser inputs)"

text \<open>
  The injector's test of one input (the callback of \<^verbatim>\<open>userCandidate\<close> in
  \<^verbatim>\<open>tryFindAndSubmitInDocument\<close>); its regular expression carries the \<^verbatim>\<open>i\<close> flag.
\<close>

definition injectorLikelyUser :: "input \<Rightarrow> bool" where
  "injectorLikelyUser i =
     (let name = inp_name i @ '' '' @ inp_id i @ '' '' @ inp_placeholder i
      in testAny usernameWords (toLowerCase name)
         \<and> (inp_type i = ''text'' \<or> inp_type i = ''email'' \<or> inp_type i = ''''))"

definition passCandidate :: "input list \<Rightarrow> input option" where
  "passCandidate inputs = find isPasswordInput inputs"

definition userCandidate :: "input list \<Rightarrow> input option" where
  "userCandidate inputs =
     (case find injectorLikelyUser inputs of
        Some i \<Rightarrow> Some i
      | None \<Rightarrow>
          (case inputs of
             [] \<Rightarrow> None
           | i0 # _ \<Rightarrow>
               (case find (\<lambda>i. \<not> isPasswordInput i) inputs of
                  Some i \<Rightarrow> Some i
                | None \<Rightarrow> Some i0)))"

text \<open>
  One scan of a tab: \<open>None\<close> when \<^verbatim>\<open>executeScript\<close> rejects, else one entry per frame, \<open>None\<close>
  for a frame whose script gave no result or threw.
\<close>

type_synonym scan = "input list option list option"

definition detectFieldsInTab :: "scan \<Rightarrow> bool" where
  "detectFieldsInTab sc =
     (case sc of
        None \<Rightarrow> False
      | Some frames \<Rightarrow>
          list_ex (\<lambda>f. case f of None \<Rightarrow> False | Some inputs \<Rightarrow> detectFrame inputs) frames)"

subsection \<open>KeepaliveClassifier\<close>

record tab =
  tab_id :: nat
  tab_url :: "string option"

definition keepaliveWords :: "string list" where
  "keepaliveWords =
     [''keepalive'', ''authentication keepalive'', ''authentication keep-alive'',
      ''authentication refresh'']"

text \<open>
  \<open>bodyText\<close> is what the in-page script reads: \<open>None\<close> when \<^verbatim>\<open>executeScript\<close> rejects or
  gives no result, else the body's inner text.
\<close>

definition urlSaysKeepalive :: "tab \<Rightarrow> bool" where
  "urlSaysKeepalive t =
     (case tab_url t of
        None \<Rightarrow> False
      | Some u \<Rightarrow> u \<noteq> '''' \<and> str_includes ''keepalive'' (toLowerCase u))"

definition isKeepaliveTab :: "string option \<Rightarrow> tab \<Rightarrow> bool" where
  "isKeepaliveTab bodyText t =
     (if tab_id t = 0 then False
      else if urlSaysKeepalive t then True
      else (case bodyText of
              None \<Rightarrow> False
            | Some text \<Rightarrow> testAny keepaliveWords (toLowerCase text)))"

definition keepaliveEvents :: "tab \<Rightarrow> event list" where
  "keepaliveEvents t =
     (if tab_id t = 0 \<or> urlSaysKeepalive t then [] else [ExecKeepalive (tab_id t)])"

text \<open>The tab search used three times: the first tab whose address parses to the origin.\<close>

definition atOrigin :: "(string \<Rightarrow> string option) \<Rightarrow> string \<Rightarrow> tab \<Rightarrow> bool" where
  "atOrigin urlOrigin origin t =
     (case tab_url t of
        None \<Rightarrow> False
      | Some u \<Rightarrow> u \<noteq> '''' \<and> urlOrigin u = Some origin)"

subsection \<open>The worker's state\<close>

record config =
  loginUrl :: string
  userField :: string
  passField :: string
  username :: string
  password :: string
  extraFields :: string

text \<open>
  The two tables \<^verbatim>\<open>failedAttemptsByOrigin\<close> and \<^verbatim>\<open>lastSuccessNotifiedAt\<close> are plain objects
  (\<^verbatim>\<open>{}\<close>), so a key that names a member of \<^verbatim>\<open>Object.prototype\<close> reads that member where
  no own entry hides it, and the key \<^verbatim>\<open>__proto__\<close> is an accessor: reading it gives the
  prototype, and assigning a number or a string to it does nothing. An origin key is such a
  name only when the login URL does not parse and is that very word.

  A value read from a table is a number or something that is not one: an inherited function
  or object, or the string that \<^verbatim>\<open>+ 1\<close> makes of it (\<^verbatim>\<open>"function Object() { [native code] }1"\<close>).
  Each of these is truthy, stays a string under \<^verbatim>\<open>+ 1\<close>, and is \<^verbatim>\<open>NaN\<close> in a comparison or a
  subtraction, so every comparison with it is false.
\<close>

datatype jsvalue = Num int | NotNumber

definition inheritedNames :: "string list" where
  "inheritedNames =
     [''constructor'', ''__defineGetter__'', ''__defineSetter__'', ''hasOwnProperty'',
      ''__lookupGetter__'', ''__lookupSetter__'', ''isPrototypeOf'', ''propertyIsEnumerable'',
      ''toString'', ''valueOf'', ''__proto__'', ''toLocaleString'']"

text \<open>\<^verbatim>\<open>obj[key]\<close>, with \<open>None\<close> for \<^verbatim>\<open>undefined\<close>; the map holds the own entries.\<close>

definition getProp :: "(string \<rightharpoonup> jsvalue) \<Rightarrow> string \<Rightarrow> jsvalue option" where
  "getProp obj key =
     (if key = ''__proto__'' then Some NotNumber
      else (case obj key of
              Some v \<Rightarrow> Some v
            | None \<Rightarrow> if key \<in> set inheritedNames then Some NotNumber else None))"

text \<open>\<^verbatim>\<open>obj[key] = v\<close> for a number or a string \<open>v\<close>.\<close>

definition setProp :: "(string \<rightharpoonup> 'a) \<Rightarrow> string \<Rightarrow> 'a \<Rightarrow> (string \<rightharpoonup> 'a)" where
  "setProp obj key v = (if key = ''__proto__'' then obj else obj(key \<mapsto> v))"

text \<open>\<^verbatim>\<open>x || 0\<close>, \<^verbatim>\<open>x + 1\<close> and \<^verbatim>\<open>x >= n\<close> on such values.\<close>

definition orZero :: "jsvalue option \<Rightarrow> jsvalue" where
  "orZero x = (case x of None \<Rightarrow> Num 0 | Some v \<Rightarrow> v)"

definition plusOne :: "jsvalue \<Rightarrow> jsvalue" where
  "plusOne v = (case v of Num n \<Rightarrow> Num (n + 1) | NotNumber \<Rightarrow> NotNumber)"

definition atLeast :: "jsvalue \<Rightarrow> int \<Rightarrow> bool" where
  "atLeast v n = (case v of Num k \<Rightarrow> n \<le> k | NotNumber \<Rightarrow> False)"

text \<open>
  The module-level variables. \<open>backoffSeconds\<close> is one number, not a table. The entries of
  \<^verbatim>\<open>lastSuccessNotifiedAt\<close> are readings of the clock, the only values ever stored there.
  \<open>trace\<close> collects the calls made to the outside world, oldest first. \<^verbatim>\<open>clearTimerId\<close> is
  never set and is left out.
\<close>

record worker =
  cachedConfig :: "config option"
  backoffSeconds :: int
  probeTabId :: "nat option"
  lastProbeTime :: int
  failedAttemptsByOrigin :: "string \<rightharpoonup> jsvalue"
  lastSuccessNotifiedAt :: "string \<rightharpoonup> int"
  createdTabIds :: "nat set"
  inFlightOrigins :: "string set"
  trace :: "event list"

text \<open>\<^verbatim>\<open>failedAttemptsByOrigin[originKey] || 0\<close> and \<^verbatim>\<open>lastSuccessNotifiedAt[originKey] || 0\<close>.\<close>

definition attemptsOf :: "worker \<Rightarrow> string \<Rightarrow> jsvalue" where
  "attemptsOf s originKey = orZero (getProp (failedAttemptsByOrigin s) originKey)"

definition lastNotified :: "worker \<Rightarrow> string \<Rightarrow> jsvalue" where
  "lastNotified s originKey =
     orZero (getProp (map_option Num \<circ> lastSuccessNotifiedAt s) originKey)"

text \<open>\<^verbatim>\<open>now - last > NOTIFY_SUCCESS_COOLDOWN_MS\<close>.\<close>

definition cooldownOver :: "int \<Rightarrow> jsvalue \<Rightarrow> int \<Rightarrow> bool" where
  "cooldownOver now lastSeen cooldown =
     (case lastSeen of Num t \<Rightarrow> now - t > cooldown | NotNumber \<Rightarrow> False)"

definition emit :: "event list \<Rightarrow> worker \<Rightarrow> worker" where
  "emit es s = s\<lparr>trace := trace s @ es\<rparr>"

definition PROBE_COOLDOWN_MS :: int where
  "PROBE_COOLDOWN_MS = 15 * 1000"

definition PROBE_URL :: string where
  "PROBE_URL = ''http://neverssl.com/''"

definition MAX_FIELD_CHECK_TRIES :: nat where
  "MAX_FIELD_CHECK_TRIES = 3"

definition FIELD_CHECK_INTERVAL_MS :: int where
  "FIELD_CHECK_INTERVAL_MS = 1200"

definition NOTIFY_SUCCESS_COOLDOWN_MS :: int where
  "NOTIFY_SUCCESS_COOLDOWN_MS = 3 * 60 * 1000"

definition lockedMessage :: string where
  "lockedMessage = ''Auto-login locked: open popup and Save credentials to enable auto-login.''"

text \<open>The source's message has a long dash where this one has a hyphen.\<close>

definition successMessage :: string where
  "successMessage = ''Auto-login succeeded - internet is reachable.''"

datatype exn = Thrown string

subsection \<open>SessionOrchestrator: openPortalTabAndSubmit\<close>

record submit_result =
  ok :: bool
  error :: string
  usedTabId :: "nat option"
  frameIndex :: "nat option"

text \<open>A failure result that carries no \<^verbatim>\<open>usedTabId\<close>.\<close>

definition failed :: "string \<Rightarrow> submit_result" where
  "failed e = \<lparr>ok = False, error = e, usedTabId = None, frameIndex = None\<rparr>"

text \<open>
  What the browser answers during one call of the orchestrator, one field per call site:
  \<^item> \<open>guardProbe\<close>, \<open>navProbe\<close>: the fetches of the two connectivity re-checks;
  \<^item> \<open>tabsQuery1\<close>, \<open>tabsQuery2\<close>: the two \<^verbatim>\<open>chrome.tabs.query\<close> answers, \<open>None\<close> when
    the call rejects;
  \<^item> \<open>probeGet\<close>: \<^verbatim>\<open>chrome.tabs.get(probeTabId)\<close>: \<open>None\<close> when it rejects, \<open>Some None\<close> when
    it gives no tab;
  \<^item> \<open>nowProbe\<close>, \<open>nowCreated\<close>: the two readings of \<^verbatim>\<open>Date.now()\<close>;
  \<^item> \<open>createProbe\<close>: the identifier of the probe tab created, \<open>None\<close> when creation rejects;
  \<^item> \<open>navUpdateOk\<close>: whether navigating the probe tab succeeds; \<open>navGet\<close>: the tab read
    back afterwards, \<open>None\<close> when that rejects;
  \<^item> \<open>createPortal\<close>: the identifier of the last-resort tab, or the text of the error;
  \<^item> \<open>reloadOk\<close>: whether the reload before the second scan succeeds;
  \<^item> \<open>scans\<close>: the page as the k-th scan sees it;
  \<^item> \<open>injectOutcome\<close>: per frame, whether the injected script reported \<^verbatim>\<open>ok\<close>, or the
    text of the error when \<^verbatim>\<open>executeScript\<close> rejects.
  \<^verbatim>\<open>waitForTabLoaded\<close> polls the tab until it is loaded or a deadline passes; it never
  throws and its result is never used, so it is one event of the trace.
\<close>

record orch_env =
  guardProbe :: probe
  tabsQuery1 :: "tab list option"
  probeGet :: "tab option option"
  nowProbe :: int
  createProbe :: "nat option"
  nowCreated :: int
  tabsQuery2 :: "tab list option"
  navProbe :: probe
  navUpdateOk :: bool
  navGet :: "tab option"
  createPortal :: "string + nat"
  reloadOk :: bool
  scans :: "nat \<Rightarrow> scan"
  injectOutcome :: "string + bool list"

text \<open>Lines 266 to 271: forget a probe tab that is gone or sits on a browser page.\<close>

definition checkProbeTab :: "orch_env \<Rightarrow> worker \<Rightarrow> worker" where
  "checkProbeTab oe s =
     (case probeTabId s of
        None \<Rightarrow> s
      | Some pid \<Rightarrow>
          if pid = 0 then s
          else
            (let s1 = emit [TabsGet pid] s
             in case probeGet oe of
                  None \<Rightarrow> s1\<lparr>probeTabId := None\<rparr>
                | Some None \<Rightarrow> s1\<lparr>probeTabId := None\<rparr>
                | Some (Some t) \<Rightarrow>
                    (case tab_url t of
                       None \<Rightarrow> s1
                     | Some u \<Rightarrow>
                         if u \<noteq> '''' \<and> startsWith u ''chrome://''
                         then s1\<lparr>probeTabId := None\<rparr> else s1)))"

text \<open>
  Lines 273 to 288: create the probe tab when there is none and the cooldown has passed.
  The first component is \<^verbatim>\<open>createdTabId\<close>.
\<close>

definition createProbeTab :: "orch_env \<Rightarrow> worker \<Rightarrow> nat option \<times> worker" where
  "createProbeTab oe s =
     (if \<not> truthy (probeTabId s) \<and> nowProbe oe - lastProbeTime s \<ge> PROBE_COOLDOWN_MS then
        (case createProbe oe of
           Some pid \<Rightarrow>
             (Some pid,
              emit [TabsCreate PROBE_URL (Some pid), WaitLoaded pid 15000]
                (s\<lparr>probeTabId := Some pid,
                   createdTabIds := insert pid (createdTabIds s),
                   lastProbeTime := nowCreated oe\<rparr>))
         | None \<Rightarrow> (None, emit [TabsCreate PROBE_URL None] (s\<lparr>probeTabId := None\<rparr>)))
      else (None, s))"

text \<open>
  Lines 300 to 319, entered when no tab is at the origin: navigate the probe tab there.
  \<open>Inl\<close> is the early return; \<open>Inr\<close> is \<^verbatim>\<open>portalTab\<close> afterwards.
\<close>

definition navigateProbe ::
  "orch_env \<Rightarrow> string \<Rightarrow> worker \<Rightarrow> (submit_result + tab option) \<times> worker" where
  "navigateProbe oe origin s =
     (case probeTabId s of
        None \<Rightarrow> (Inr None, s)
      | Some pid \<Rightarrow>
          if pid = 0 then (Inr None, s)
          else
            (let s1 = emit (probeEvents (navProbe oe)) s
             in if isInternetUp (navProbe oe) then (Inl (failed ''already_up''), s1)
                else if \<not> navUpdateOk oe then (Inr None, emit [TabsNavigate pid origin] s1)
                else (Inr (navGet oe),
                      emit [TabsNavigate pid origin, WaitLoaded pid 15000, TabsGet pid] s1)))"

text \<open>
  Lines 264 to 334, the branch taken when the first query finds no tab at the origin.
  \<open>Inl\<close> is an early return; \<open>Inr\<close> is \<^verbatim>\<open>portalTab\<close> (its identifier) and
  \<^verbatim>\<open>createdTabId\<close>.
\<close>

definition acquireTab ::
  "(string \<Rightarrow> string option) \<Rightarrow> orch_env \<Rightarrow> string \<Rightarrow> worker
     \<Rightarrow> (submit_result + nat option \<times> nat option) \<times> worker" where
  "acquireTab urlOrigin oe origin s =
     (let (created, s1) = createProbeTab oe (checkProbeTab oe s);
          s2 = emit [TabsQuery] s1;
          found = (case tabsQuery2 oe of
                     None \<Rightarrow> None
                   | Some tabs2 \<Rightarrow> find (atOrigin urlOrigin origin) tabs2);
          (nav, s3) = (case found of
                         Some t \<Rightarrow> (Inr (Some t), s2)
                       | None \<Rightarrow> navigateProbe oe origin s2)
      in case nav of
           Inl r \<Rightarrow> (Inl r, s3)
         | Inr (Some t) \<Rightarrow> (Inr (Some (tab_id t), created), s3)
         | Inr None \<Rightarrow>
             (case createPortal oe of
                Inl msg \<Rightarrow>
                  (Inl (failed (''tab_create_failed:'' @ msg)),
                   emit [TabsCreate origin None] s3)
              | Inr tid \<Rightarrow>
                  (Inr (Some tid, Some tid),
                   emit [TabsCreate origin (Some tid), WaitLoaded tid 15000]
                     (s3\<lparr>createdTabIds := insert tid (createdTabIds s3)\<rparr>))))"

text \<open>
  Lines 343 to 358: the retry loop of the field check. Scan 0 is made before the loop;
  \<open>checkAttempt\<close> counts the retries made.
\<close>

function fieldCheckLoop ::
  "orch_env \<Rightarrow> nat \<Rightarrow> nat \<Rightarrow> bool \<Rightarrow> worker \<Rightarrow> bool \<times> worker" where
  "fieldCheckLoop oe tid checkAttempt found s =
     (if checkAttempt < MAX_FIELD_CHECK_TRIES \<and> \<not> found then
        (let s1 = (if checkAttempt = 0
                   then emit (if reloadOk oe then [TabsReload tid, WaitLoaded tid 7000]
                              else [TabsReload tid]) s
                   else emit [Sleep FIELD_CHECK_INTERVAL_MS] s)
         in fieldCheckLoop oe tid (checkAttempt + 1)
              (detectFieldsInTab (scans oe (checkAttempt + 1))) (emit [ExecDetect tid] s1))
      else (found, s))"
  by pat_completeness auto
termination
  by (relation "measure (\<lambda>(oe, tid, checkAttempt, found, s). MAX_FIELD_CHECK_TRIES - checkAttempt)")
     auto

declare fieldCheckLoop.simps [simp del]

fun firstOk :: "bool list \<Rightarrow> nat option" where
  "firstOk [] = None"
| "firstOk (b # bs) = (if b then Some 0 else map_option Suc (firstOk bs))"

text \<open>Lines 337 to 468: the field check and the injection, on the tab acquired.\<close>

definition detectAndInject ::
  "orch_env \<Rightarrow> nat option \<Rightarrow> nat option \<Rightarrow> worker \<Rightarrow> submit_result \<times> worker" where
  "detectAndInject oe portalTab createdTabId s =
     (case portalTab of
        None \<Rightarrow> (failed ''no_portal_tab'', s)
      | Some tid \<Rightarrow>
          (let (found, s1) =
                 fieldCheckLoop oe tid 0 (detectFieldsInTab (scans oe 0)) (emit [ExecDetect tid] s)
           in if \<not> found then (failed ''fields_not_found_in_all_frames'', s1)
              else
                (let s2 = emit [ExecInject tid] s1
                 in case injectOutcome oe of
                      Inl msg \<Rightarrow>
                        (\<lparr>ok = False, error = ''scripting_inject_failed:'' @ msg,
                          usedTabId = createdTabId, frameIndex = None\<rparr>, s2)
                    | Inr oks \<Rightarrow>
                        (case firstOk oks of
                           Some i \<Rightarrow>
                             (\<lparr>ok = True, error = '''', usedTabId = createdTabId,
                               frameIndex = Some i\<rparr>, s2)
                         | None \<Rightarrow>
                             (\<lparr>ok = False, error = ''fields_not_found_in_all_frames'',
                               usedTabId = createdTabId, frameIndex = None\<rparr>, s2)))))"

text \<open>Line 238: \<^verbatim>\<open>originOf(cfg.loginUrl || '') || cfg.loginUrl || ''\<close>.\<close>

definition portalOrigin :: "(string \<Rightarrow> string option) \<Rightarrow> config \<Rightarrow> string" where
  "portalOrigin urlOrigin cfg =
     (let org = originOf urlOrigin (Some (loginUrl cfg))
      in if org \<noteq> '''' then org else loginUrl cfg)"

text \<open>
  The orchestrator. The first query of the tabs is outside every \<^verbatim>\<open>try\<close>: when it rejects,
  the call throws (\<open>Inl\<close>).
\<close>

definition openPortalTabAndSubmit ::
  "(string \<Rightarrow> string option) \<Rightarrow> orch_env \<Rightarrow> config \<Rightarrow> worker
     \<Rightarrow> (exn + submit_result) \<times> worker" where
  "openPortalTabAndSubmit urlOrigin oe cfg s =
     (let origin = portalOrigin urlOrigin cfg;
          s1 = emit (CallOpenPortalTabAndSubmit # probeEvents (guardProbe oe)) s
      in if isInternetUp (guardProbe oe) then (Inr (failed ''already_up''), s1)
         else
           (let s2 = emit [TabsQuery] s1
            in case tabsQuery1 oe of
                 None \<Rightarrow> (Inl (Thrown ''tabs.query''), s2)
               | Some tabs \<Rightarrow>
                   (case find (atOrigin urlOrigin origin) tabs of
                      Some pt \<Rightarrow>
                        (let (r, s3) = detectAndInject oe (Some (tab_id pt)) None
                                         (emit [TabsDeactivate (tab_id pt)] s2)
                         in (Inr r, s3))
                    | None \<Rightarrow>
                        (case acquireTab urlOrigin oe origin s2 of
                           (Inl r, s3) \<Rightarrow> (Inr r, s3)
                         | (Inr (portalTab, createdTabId), s3) \<Rightarrow>
                             (let (r, s4) = detectAndInject oe portalTab createdTabId s3
                              in (Inr r, s4))))))"

subsection \<open>RemediationScheduler: checkAndLogin\<close>

text \<open>
  What the browser answers during one call of the scheduler (the URL parser \<open>urlOrigin\<close>
  is a parameter of its own, the same at every call):
  \<^item> \<open>probe0\<close>, \<open>probe1\<close>, \<open>probeAfterSubmit\<close>, \<open>probeAfterFailure\<close>: the fetches of the four
    connectivity checks (lines 477, 511, 543 and 597);
  \<^item> \<open>notifyThrows\<close>: whether \<^verbatim>\<open>chrome.notifications.create\<close> throws;
  \<^item> \<open>tabsAll\<close>: the answer of the tab query of the keepalive check, \<open>None\<close> when it rejects;
  \<^item> \<open>bodyText\<close>: what the keepalive script reads in the page;
  \<^item> \<open>orch\<close>: the answers to the orchestrator;
  \<^item> \<open>nowNotify\<close>: the reading of \<^verbatim>\<open>Date.now()\<close> before a success notification.
\<close>

record sched_env =
  probe0 :: probe
  notifyThrows :: bool
  probe1 :: probe
  tabsAll :: "tab list option"
  bodyText :: "string option"
  orch :: orch_env
  probeAfterSubmit :: probe
  probeAfterFailure :: probe
  nowNotify :: int

text \<open>
  Lines 476 to 501: the checks before the attempt. \<open>Inl\<close> is the way the call ends there
  (a thrown exception or a returned value); \<open>Inr\<close> is the configuration and the origin key,
  with the origin marked in flight.
\<close>

definition prelude ::
  "(string \<Rightarrow> string option) \<Rightarrow> sched_env \<Rightarrow> bool \<Rightarrow> worker \<Rightarrow> ((exn + bool) + config \<times> string) \<times> worker" where
  "prelude urlOrigin env force s =
     (let s1 = (if force then s else emit (probeEvents (probe0 env)) s)
      in if \<not> force \<and> isInternetUp (probe0 env) then (Inl (Inr True), s1)
         else
           (case cachedConfig s1 of
              None \<Rightarrow>
                if notifyThrows env then (Inl (Inl (Thrown ''notifications.create'')), s1)
                else (Inl (Inr False), emit [Notify lockedMessage] s1)
            | Some cfg \<Rightarrow>
                if loginUrl cfg = '''' then (Inl (Inr False), s1)
                else
                  (let originKey = originOf urlOrigin (Some (loginUrl cfg))
                   in if originKey \<in> inFlightOrigins s1 \<and> \<not> force then (Inl (Inr False), s1)
                      else (Inr (cfg, originKey),
                            s1\<lparr>inFlightOrigins := insert originKey (inFlightOrigins s1)\<rparr>))))"

text \<open>Lines 519 to 522: the first open tab at the origin, if the query succeeds.\<close>

definition maybeTab ::
  "(string \<Rightarrow> string option) \<Rightarrow> sched_env \<Rightarrow> string \<Rightarrow> tab option" where
  "maybeTab urlOrigin env originKey =
     (case tabsAll env of
        None \<Rightarrow> None
      | Some tabsAll' \<Rightarrow> find (atOrigin urlOrigin originKey) tabsAll')"

text \<open>
  Lines 504 to 534: the backoff wait, the second connectivity check and the keepalive check.
  \<open>Some b\<close>: the call returns \<open>b\<close> here; \<open>None\<close>: it goes on to the orchestrator.
\<close>

definition beforeSubmit ::
  "(string \<Rightarrow> string option) \<Rightarrow> sched_env \<Rightarrow> bool \<Rightarrow> string \<Rightarrow> worker \<Rightarrow> bool option \<times> worker" where
  "beforeSubmit urlOrigin env force originKey s =
     (let s1 = (if backoffSeconds s > 0 then emit [Sleep (backoffSeconds s * 1000)] s else s);
          s2 = (if force then s1 else emit (probeEvents (probe1 env)) s1)
      in if \<not> force \<and> isInternetUp (probe1 env)
         then (Some True, s2\<lparr>inFlightOrigins := inFlightOrigins s2 - {originKey}\<rparr>)
         else
           (let s3 = emit [TabsQuery] s2
            in case maybeTab urlOrigin env originKey of
                 None \<Rightarrow> (None, s3)
               | Some t \<Rightarrow>
                   (let s4 = emit (keepaliveEvents t) s3
                    in if isKeepaliveTab (bodyText env) t
                       then (Some False,
                             s4\<lparr>backoffSeconds := 5,
                                inFlightOrigins := inFlightOrigins s4 - {originKey}\<rparr>)
                       else (None, s4))))"

text \<open>
  The rate-limited success notification (lines 548 to 555 and 600 to 605). The first
  component is the exception when \<^verbatim>\<open>chrome.notifications.create\<close> throws.
\<close>

definition notifySuccess :: "sched_env \<Rightarrow> string \<Rightarrow> worker \<Rightarrow> exn option \<times> worker" where
  "notifySuccess env originKey s =
     (let now = nowNotify env;
          last = lastNotified s originKey
      in if cooldownOver now last NOTIFY_SUCCESS_COOLDOWN_MS then
           (if notifyThrows env then (Some (Thrown ''notifications.create''), s)
            else (None,
                  emit [Notify successMessage]
                    (s\<lparr>lastSuccessNotifiedAt := setProp (lastSuccessNotifiedAt s) originKey now\<rparr>)))
         else (None, s))"

text \<open>Lines 558 to 570: close the tab of this attempt, only if the worker created it.\<close>

definition closeCreatedTab :: "submit_result \<Rightarrow> worker \<Rightarrow> worker" where
  "closeCreatedTab submitRes s =
     (case usedTabId submitRes of
        None \<Rightarrow> s
      | Some tid \<Rightarrow>
          if tid \<noteq> 0 \<and> tid \<in> createdTabIds s then
            emit [TabsRemove tid]
              (s\<lparr>createdTabIds := createdTabIds s - {tid},
                 probeTabId := (if truthy (probeTabId s) \<and> probeTabId s = Some tid
                                then None else probeTabId s)\<rparr>)
          else s)"

text \<open>Lines 587 to 592: the backoff after a failed submit; \<open>attempts\<close> is the count after the increment.\<close>

definition friendlyBackoff :: "int \<Rightarrow> jsvalue \<Rightarrow> int" where
  "friendlyBackoff b attempts =
     (if b = 0 then 2
      else if b < 16 then min (b * 2) 16
      else if atLeast attempts 6 then 5
      else min (b * 2) 60)"

text \<open>Line 576: the backoff after a submit that did not restore connectivity.\<close>

definition settleBackoff :: "int \<Rightarrow> int" where
  "settleBackoff b = (if b \<noteq> 0 then min (b * 2) 16 else 2)"

text \<open>
  Lines 540 to 612: what the scheduler does with the orchestrator's result. Line 584 reads
  \<^verbatim>\<open>attempts\<close> back from the table: that is the value just written, and for the key
  \<^verbatim>\<open>__proto__\<close>, where nothing is written, the prototype, which is no number either.
\<close>

definition afterSubmit ::
  "sched_env \<Rightarrow> string \<Rightarrow> submit_result \<Rightarrow> worker \<Rightarrow> (exn + bool) \<times> worker" where
  "afterSubmit env originKey submitRes s =
     (if ok submitRes then
        (let s1 = emit (Sleep 2000 # probeEvents (probeAfterSubmit env)) s
         in if isInternetUp (probeAfterSubmit env) then
              (let s2 = s1\<lparr>backoffSeconds := 0,
                          failedAttemptsByOrigin :=
                            setProp (failedAttemptsByOrigin s1) originKey (Num 0)\<rparr>
               in case notifySuccess env originKey s2 of
                    (Some e, s3) \<Rightarrow> (Inl e, s3)
                  | (None, s3) \<Rightarrow>
                      (let s4 = closeCreatedTab submitRes s3
                       in (Inr True, s4\<lparr>inFlightOrigins := inFlightOrigins s4 - {originKey}\<rparr>)))
            else
              (Inr False,
               s1\<lparr>backoffSeconds := settleBackoff (backoffSeconds s1),
                  inFlightOrigins := inFlightOrigins s1 - {originKey}\<rparr>))
      else
        (let attempts = plusOne (attemptsOf s originKey);
             s1 = s\<lparr>failedAttemptsByOrigin := setProp (failedAttemptsByOrigin s) originKey attempts,
                     backoffSeconds := friendlyBackoff (backoffSeconds s) attempts\<rparr>;
             s2 = emit (probeEvents (probeAfterFailure env)) s1
         in if isInternetUp (probeAfterFailure env) then
              (let s3 = s2\<lparr>failedAttemptsByOrigin :=
                            setProp (failedAttemptsByOrigin s2) originKey (Num 0)\<rparr>
               in case notifySuccess env originKey s3 of
                    (Some e, s4) \<Rightarrow> (Inl e, s4)
                  | (None, s4) \<Rightarrow>
                      (Inr True, s4\<lparr>inFlightOrigins := inFlightOrigins s4 - {originKey}\<rparr>))
            else (Inr False, s2\<lparr>inFlightOrigins := inFlightOrigins s2 - {originKey}\<rparr>)))"

text \<open>
  Lines 503 to 615: the inner \<^verbatim>\<open>try\<close> with its \<^verbatim>\<open>finally\<close>, which removes the origin from the
  in-flight set however the body ends.
\<close>

definition attempt ::
  "(string \<Rightarrow> string option) \<Rightarrow> sched_env \<Rightarrow> bool \<Rightarrow> config \<Rightarrow> string \<Rightarrow> worker \<Rightarrow> (exn + bool) \<times> worker" where
  "attempt urlOrigin env force cfg originKey s =
     (let (r, s') =
            (case beforeSubmit urlOrigin env force originKey s of
               (Some b, s1) \<Rightarrow> (Inr b, s1)
             | (None, s1) \<Rightarrow>
                 (case openPortalTabAndSubmit urlOrigin (orch env) cfg s1 of
                    (Inl e, s2) \<Rightarrow> (Inl e, s2)
                  | (Inr submitRes, s2) \<Rightarrow> afterSubmit env originKey submitRes s2))
      in (r, s'\<lparr>inFlightOrigins := inFlightOrigins s' - {originKey}\<rparr>))"

text \<open>
  The whole call: the outer \<^verbatim>\<open>catch\<close> turns every exception into the result \<^verbatim>\<open>false\<close>.
\<close>

definition checkAndLogin :: "(string \<Rightarrow> string option) \<Rightarrow> sched_env \<Rightarrow> bool \<Rightarrow> worker \<Rightarrow> bool \<times> worker" where
  "checkAndLogin urlOrigin env force s =
     (case prelude urlOrigin env force s of
        (Inl (Inl e), s1) \<Rightarrow> (False, s1)
      | (Inl (Inr b), s1) \<Rightarrow> (b, s1)
      | (Inr (cfg, originKey), s1) \<Rightarrow>
          (case attempt urlOrigin env force cfg originKey s1 of
             (Inl e, s2) \<Rightarrow> (False, s2)
           | (Inr b, s2) \<Rightarrow> (b, s2)))"

subsection \<open>Triggers\<close>

text \<open>
  The alarm calls \<^verbatim>\<open>checkAndLogin(false)\<close>; the messages \<^verbatim>\<open>doLoginNow\<close> and a matching
  \<^verbatim>\<open>page_is_portal\<close> call \<^verbatim>\<open>checkAndLogin(true)\<close>.
\<close>

datatype message =
    SetPlainConfig "config option"
  | DoLoginNow
  | ClearCache
  | PageIsPortal string
  | UnknownMessage

record response =
  resp_ok :: bool
  resp_error :: string

definition cacheConfig :: "config option \<Rightarrow> worker \<Rightarrow> worker" where
  "cacheConfig cfg s = s\<lparr>cachedConfig := cfg\<rparr>"

definition onAlarm :: "(string \<Rightarrow> string option) \<Rightarrow> sched_env \<Rightarrow> worker \<Rightarrow> worker" where
  "onAlarm urlOrigin env s = snd (checkAndLogin urlOrigin env False s)"

definition onMessage :: "(string \<Rightarrow> string option) \<Rightarrow> sched_env \<Rightarrow> message \<Rightarrow> worker \<Rightarrow> response \<times> worker" where
  "onMessage urlOrigin env msg s =
     (case msg of
        SetPlainConfig cfg \<Rightarrow> (\<lparr>resp_ok = True, resp_error = ''''\<rparr>, cacheConfig cfg s)
      | DoLoginNow \<Rightarrow>
          (let (r, s') = checkAndLogin urlOrigin env True s in (\<lparr>resp_ok = r, resp_error = ''''\<rparr>, s'))
      | ClearCache \<Rightarrow> (\<lparr>resp_ok = True, resp_error = ''''\<rparr>, s\<lparr>cachedConfig := None\<rparr>)
      | PageIsPortal origin \<Rightarrow>
          (case cachedConfig s of
             None \<Rightarrow> (\<lparr>resp_ok = False, resp_error = ''no_cached_match''\<rparr>, s)
           | Some cfg \<Rightarrow>
               if originOf urlOrigin (Some (loginUrl cfg)) = origin then
                 (let (r, s') = checkAndLogin urlOrigin env True s in (\<lparr>resp_ok = r, resp_error = ''''\<rparr>, s'))
               else (\<lparr>resp_ok = False, resp_error = ''no_cached_match''\<rparr>, s))
      | UnknownMessage \<Rightarrow> (\<lparr>resp_ok = False, resp_error = ''unknown message''\<rparr>, s))"

text \<open>Everything that can wake the worker: the periodic alarm or a message.\<close>

datatype trigger = Alarm | Message message

definition handle ::
  "(string \<Rightarrow> string option) \<Rightarrow> sched_env \<Rightarrow> trigger \<Rightarrow> worker \<Rightarrow> worker" where
  "handle urlOrigin env trig s =
     (case trig of
        Alarm \<Rightarrow> onAlarm urlOrigin env s
      | Message msg \<Rightarrow> snd (onMessage urlOrigin env msg s))"

subsection \<open>Reading a run\<close>

text \<open>The tabs a stretch of the trace created, and the tabs it closed.\<close>

fun createdBy :: "event \<Rightarrow> nat set" where
  "createdBy (TabsCreate url (Some tid)) = {tid}"
| "createdBy e = {}"

fun closedBy :: "event \<Rightarrow> nat set" where
  "closedBy (TabsRemove tid) = {tid}"
| "closedBy e = {}"

definition created :: "event list \<Rightarrow> nat set" where
  "created es = (\<Union>e \<in> set es. createdBy e)"

definition closed :: "event list \<Rightarrow> nat set" where
  "closed es = (\<Union>e \<in> set es. closedBy e)"

text \<open>The events a call added to the trace.\<close>

definition news :: "worker \<Rightarrow> worker \<Rightarrow> event list" where
  "news s s' = drop (length (trace s)) (trace s')"

text \<open>The variables that only the scheduler writes are the same in both states.\<close>

definition schedulerKept :: "worker \<Rightarrow> worker \<Rightarrow> bool" where
  "schedulerKept s s' =
     (cachedConfig s' = cachedConfig s \<and> backoffSeconds s' = backoffSeconds s
      \<and> failedAttemptsByOrigin s' = failedAttemptsByOrigin s
      \<and> lastSuccessNotifiedAt s' = lastSuccessNotifiedAt s
      \<and> inFlightOrigins s' = inFlightOrigins s)"

text \<open>
  A step of the orchestrator: the trace grows, no tab is closed, the registry gains exactly
  the tabs created, and the scheduler's variables stay.
\<close>

definition orchStep :: "worker \<Rightarrow> worker \<Rightarrow> bool" where
  "orchStep s s' =
     (prefix (trace s) (trace s') \<and> closed (news s s') = {}
      \<and> createdTabIds s' = createdTabIds s \<union> created (news s s')
      \<and> schedulerKept s s')"

text \<open>
  The call gets as far as the orchestrator, which returns a result: the origin key, the
  result, and the state at that point. \<open>None\<close> when the call ends earlier or the orchestrator
  throws.
\<close>

definition submitOutcome ::
  "(string \<Rightarrow> string option) \<Rightarrow> sched_env \<Rightarrow> bool \<Rightarrow> worker
     \<Rightarrow> (string \<times> submit_result \<times> worker) option" where
  "submitOutcome urlOrigin env force s =
     (case prelude urlOrigin env force s of
        (Inl r, s1) \<Rightarrow> None
      | (Inr (cfg, originKey), s1) \<Rightarrow>
          (case beforeSubmit urlOrigin env force originKey s1 of
             (Some b, s2) \<Rightarrow> None
           | (None, s2) \<Rightarrow>
               (case openPortalTabAndSubmit urlOrigin (orch env) cfg s2 of
                  (Inl e, s3) \<Rightarrow> None
                | (Inr submitRes, s3) \<Rightarrow> Some (originKey, submitRes, s3))))"

text \<open>
  A failed remediation at the orchestrator: it returns a result that is not \<^verbatim>\<open>ok\<close>, and the
  connectivity check that follows still finds the internet down.
\<close>

definition failedSubmit ::
  "(string \<Rightarrow> string option) \<Rightarrow> sched_env \<Rightarrow> bool \<Rightarrow> worker \<Rightarrow> bool" where
  "failedSubmit urlOrigin env force s =
     (case submitOutcome urlOrigin env force s of
        None \<Rightarrow> False
      | Some (originKey, submitRes, s3) \<Rightarrow>
          \<not> ok submitRes \<and> \<not> isInternetUp (probeAfterFailure env))"

text \<open>
  A row of calls, each one such a failure: the state after the last, \<open>None\<close> if one of them
  is not a failure of this kind.
\<close>

fun afterFailures ::
  "(string \<Rightarrow> string option) \<Rightarrow> (sched_env \<times> bool) list \<Rightarrow> worker \<Rightarrow> worker option" where
  "afterFailures urlOrigin [] s = Some s"
| "afterFailures urlOrigin ((env, force) # calls) s =
     (if failedSubmit urlOrigin env force s
      then afterFailures urlOrigin calls (snd (checkAndLogin urlOrigin env force s))
      else None)"


text \<open>
  The likely-username test as the specification words it: the name, id or placeholder
  matches, or the type is text, email or absent.
\<close>

definition specLikelyUser :: "input \<Rightarrow> bool" where
  "specLikelyUser i =
     (testAny usernameWords (toLowerCase (inp_name i @ '' '' @ inp_id i @ '' '' @ inp_placeholder i))
      \<or> inp_type i = ''text'' \<or> inp_type i = ''email'' \<or> inp_type i = '''')"

text \<open>The events of the backoff wait (lines 505 to 508).\<close>

definition waitEvents :: "worker \<Rightarrow> event list" where
  "waitEvents s = (if backoffSeconds s > 0 then [Sleep (backoffSeconds s * 1000)] else [])"

text \<open>The events of the keepalive check, and whether it finds a keepalive page.\<close>

definition keepaliveCheckEvents ::
  "(string \<Rightarrow> string option) \<Rightarrow> sched_env \<Rightarrow> string \<Rightarrow> event list" where
  "keepaliveCheckEvents urlOrigin env originKey =
     TabsQuery # (case maybeTab urlOrigin env originKey of
                    None \<Rightarrow> []
                  | Some t \<Rightarrow> keepaliveEvents t)"

definition keepaliveHit :: "(string \<Rightarrow> string option) \<Rightarrow> sched_env \<Rightarrow> string \<Rightarrow> bool" where
  "keepaliveHit urlOrigin env originKey =
     (case maybeTab urlOrigin env originKey of
        None \<Rightarrow> False
      | Some t \<Rightarrow> isKeepaliveTab (bodyText env) t)"

text \<open>
  The state in which the orchestrator is called, for a call that gets that far: the origin
  is in flight, and the trace has the events of the checks made on the way.
\<close>

definition entryEvents ::
  "(string \<Rightarrow> string option) \<Rightarrow> sched_env \<Rightarrow> bool \<Rightarrow> string \<Rightarrow> worker \<Rightarrow> event list" where
  "entryEvents urlOrigin env force originKey s =
     (if force then [] else probeEvents (probe0 env)) @ waitEvents s
     @ (if force then [] else probeEvents (probe1 env))
     @ keepaliveCheckEvents urlOrigin env originKey"

definition entryState ::
  "(string \<Rightarrow> string option) \<Rightarrow> sched_env \<Rightarrow> bool \<Rightarrow> string \<Rightarrow> worker \<Rightarrow> worker" where
  "entryState urlOrigin env force originKey s =
     (emit (entryEvents urlOrigin env force originKey s) s)
       \<lparr>inFlightOrigins := insert originKey (inFlightOrigins s)\<rparr>"

subsection \<open>Concrete inputs\<close>

text \<open>
  A small URL parser for the examples: it knows two portal origins and rejects every other
  string.
\<close>

definition demoUrlOrigin :: "string \<Rightarrow> string option" where
  "demoUrlOrigin u =
     (if prefix ''http://172.16.2.1:1000'' u then Some ''http://172.16.2.1:1000''
      else if prefix ''http://10.0.0.1/'' u then Some ''http://10.0.0.1''
      else None)"

definition demoConfig :: config where
  "demoConfig =
     \<lparr>loginUrl = ''http://172.16.2.1:1000/login'', userField = ''username'',
      passField = ''password'', username = ''alice'', password = ''secret'',
      extraFields = ''''\<rparr>"

definition otherConfig :: config where
  "otherConfig = demoConfig\<lparr>loginUrl := ''http://10.0.0.1/''\<rparr>"

definition demoKey :: string where
  "demoKey = ''http://172.16.2.1:1000''"

text \<open>The worker right after start-up, and with the demo configuration cached.\<close>

definition startUp :: worker where
  "startUp =
     \<lparr>cachedConfig = None, backoffSeconds = 0, probeTabId = None, lastProbeTime = 0,
      failedAttemptsByOrigin = Map.empty, lastSuccessNotifiedAt = Map.empty,
      createdTabIds = {}, inFlightOrigins = {}, trace = []\<rparr>"

definition configured :: worker where
  "configured = startUp\<lparr>cachedConfig := Some demoConfig\<rparr>"

definition down :: probe where
  "down = (FetchFailed, Status 302)"

definition up :: probe where
  "up = (Status 204, Status 204)"

definition loginForm :: "input list" where
  "loginForm =
     [\<lparr>inp_name = ''username'', inp_id = '''', inp_type = ''text'', inp_placeholder = ''''\<rparr>,
      \<lparr>inp_name = ''password'', inp_id = '''', inp_type = ''password'', inp_placeholder = ''''\<rparr>]"

text \<open>
  An orchestrator run behind a portal: no tab is at the origin, the probe tab 7 is created
  and lands on the portal, the form is found at the first scan, and the injected script
  reports failure in the only frame.
\<close>

definition orchRejected :: orch_env where
  "orchRejected =
     \<lparr>guardProbe = down, tabsQuery1 = Some [], probeGet = None, nowProbe = 100000,
      createProbe = Some 7, nowCreated = 100500,
      tabsQuery2 = Some [\<lparr>tab_id = 7, tab_url = Some ''http://172.16.2.1:1000/login''\<rparr>],
      navProbe = down, navUpdateOk = True, navGet = None, createPortal = Inl ''Error'',
      reloadOk = True, scans = (\<lambda>k. Some [Some loginForm]), injectOutcome = Inr [False]\<rparr>"

text \<open>The same with the internet down at every check of the scheduler and no tab open.\<close>

definition envRejected :: sched_env where
  "envRejected =
     \<lparr>probe0 = down, notifyThrows = False, probe1 = down, tabsAll = Some [],
      bodyText = None, orch = orchRejected, probeAfterSubmit = down,
      probeAfterFailure = down, nowNotify = 1000000\<rparr>"

text \<open>An orchestrator run in which no tab can be created at all.\<close>

definition orchBlocked :: orch_env where
  "orchBlocked =
     orchRejected\<lparr>createProbe := None, tabsQuery2 := Some [], createPortal := Inl ''Error''\<rparr>"

definition envBlocked :: sched_env where
  "envBlocked = envRejected\<lparr>orch := orchBlocked\<rparr>"

text \<open>A configuration whose login URL is not a URL.\<close>

definition rawConfig :: config where
  "rawConfig = demoConfig\<lparr>loginUrl := ''portal''\<rparr>"

text \<open>Three inputs: a text box with an unrelated name, a password box, an e-mail box.\<close>

definition plainText :: input where
  "plainText = \<lparr>inp_name = ''code'', inp_id = '''', inp_type = ''text'', inp_placeholder = ''''\<rparr>"

definition passwordBox :: input where
  "passwordBox =
     \<lparr>inp_name = ''pw'', inp_id = '''', inp_type = ''password'', inp_placeholder = ''''\<rparr>"

definition emailBox :: input where
  "emailBox =
     \<lparr>inp_name = '''', inp_id = ''Email'', inp_type = ''email'', inp_placeholder = ''''\<rparr>"

text \<open>
  The worker with five failures counted for the demo origin, at a backoff of 2 and of 16.
\<close>

definition fiveFailuresAt :: "int \<Rightarrow> worker" where
  "fiveFailuresAt b =
     configured\<lparr>backoffSeconds := b, failedAttemptsByOrigin := [demoKey \<mapsto> Num 5]\<rparr>"

text \<open>The internet is up at every check; no tab is open.\<close>

definition envUp :: sched_env where
  "envUp =
     envBlocked\<lparr>probe0 := up, probe1 := up, probeAfterSubmit := up, probeAfterFailure := up,
                orch := orchBlocked\<lparr>guardProbe := up, navProbe := up\<rparr>\<rparr>"

text \<open>
  The run of \<open>envRejected\<close> (the injected script fails in the tab 7 that the worker
  created), with the internet found up at the check that follows.
\<close>

definition envRecovered :: sched_env where
  "envRecovered = envRejected\<lparr>probeAfterFailure := up\<rparr>"

text \<open>A keepalive page of the portal is open in tab 3.\<close>

definition envKeepalive :: sched_env where
  "envKeepalive =
     envBlocked\<lparr>tabsAll := Some [\<lparr>tab_id = 3,
                                   tab_url = Some ''http://172.16.2.1:1000/KeepAlive?x=1''\<rparr>]\<rparr>"

text \<open>The first tab query of the orchestrator is rejected; creating a notification throws.\<close>

definition envQueryRejected :: sched_env where
  "envQueryRejected = envBlocked\<lparr>orch := orchBlocked\<lparr>tabsQuery1 := None\<rparr>\<rparr>"

definition envNotifyThrows :: sched_env where
  "envNotifyThrows = envBlocked\<lparr>notifyThrows := True\<rparr>"

text \<open>
  An alarm fails for the demo origin; then the user saves a configuration for another
  origin.
\<close>

definition afterDemoFailure :: worker where
  "afterDemoFailure = handle demoUrlOrigin envBlocked Alarm configured"

definition switchedOrigin :: worker where
  "switchedOrigin =
     handle demoUrlOrigin envBlocked (Message (SetPlainConfig (Some otherConfig))) afterDemoFailure"

text \<open>
  A successful login through the probe tab 7 that the worker creates: the tab lands on the
  portal, the injected script submits the form, and the internet is up afterwards.
\<close>

definition envLoggedIn :: sched_env where
  "envLoggedIn =
     envRejected\<lparr>orch := orchRejected\<lparr>injectOutcome := Inr [True]\<rparr>, probeAfterSubmit := up\<rparr>"

text \<open>The same with the portal already open in the user's tab 4, which is reused.\<close>

definition envReused :: sched_env where
  "envReused =
     envLoggedIn\<lparr>orch := (orch envLoggedIn)
       \<lparr>tabsQuery1 := Some [\<lparr>tab_id = 4, tab_url = Some ''http://172.16.2.1:1000/login''\<rparr>]\<rparr>\<rparr>"

text \<open>
  Two configurations whose login URL does not parse and names a member of
  \<^verbatim>\<open>Object.prototype\<close>, and the worker with the demo origin already in flight.
\<close>

definition protoConfig :: config where
  "protoConfig = demoConfig\<lparr>loginUrl := ''__proto__''\<rparr>"

definition constructorConfig :: config where
  "constructorConfig = demoConfig\<lparr>loginUrl := ''constructor''\<rparr>"

definition attemptRunning :: worker where
  "attemptRunning = configured\<lparr>inFlightOrigins := {demoKey}\<rparr>"

section \<open>Properties\<close>

subsection \<open>Traces and the orchestrator's steps\<close>

lemma created_simps [simp]:
  "created [] = {}"
  "created (e # es) = createdBy e \<union> created es"
  "created (es @ es') = created es \<union> created es'"
  by (auto simp: created_def)

lemma closed_simps [simp]:
  "closed [] = {}"
  "closed (e # es) = closedBy e \<union> closed es"
  "closed (es @ es') = closed es \<union> closed es'"
  by (auto simp: closed_def)

lemma news_self [simp]: "news s s = []"
  by (simp add: news_def)

lemma news_emit [simp]: "news s (emit es s) = es"
  by (simp add: news_def emit_def)

lemma news_append:
  assumes "prefix (trace s) (trace s')" and "prefix (trace s') (trace s'')"
  shows "news s s'' = news s s' @ news s' s''"
proof -
  from assms(1) obtain es where es: "trace s' = trace s @ es" by (auto simp: prefix_def)
  from assms(2) obtain es' where es': "trace s'' = trace s' @ es'" by (auto simp: prefix_def)
  show ?thesis by (simp add: news_def es es')
qed

lemma trace_news: "prefix (trace s) (trace s') \<Longrightarrow> trace s' = trace s @ news s s'"
  by (auto simp: prefix_def news_def)

lemma probeEvents_quiet [simp]: "created (probeEvents p) = {}" "closed (probeEvents p) = {}"
  by (simp_all add: probeEvents_def)

lemma schedulerKept_refl [simp]: "schedulerKept s s"
  by (simp add: schedulerKept_def)

lemma orchStep_refl [simp]: "orchStep s s"
  by (simp add: orchStep_def)

lemma orchStep_trans:
  assumes "orchStep s s'" and "orchStep s' s''"
  shows "orchStep s s''"
proof -
  have p: "prefix (trace s) (trace s')" "prefix (trace s') (trace s'')"
    using assms by (simp_all add: orchStep_def)
  have n: "news s s'' = news s s' @ news s' s''" by (rule news_append [OF p])
  show ?thesis
    using assms p n by (auto simp: orchStep_def schedulerKept_def intro: prefix_order.trans)
qed

lemma orchStep_emit:
  "created es = {} \<Longrightarrow> closed es = {} \<Longrightarrow> orchStep s (emit es s)"
  by (simp add: orchStep_def schedulerKept_def) (simp add: emit_def)

lemma orchStep_checkProbeTab: "orchStep s (checkProbeTab oe s)"
  by (auto simp: checkProbeTab_def orchStep_def schedulerKept_def emit_def news_def Let_def
           split: option.splits)

lemma orchStep_createProbeTab:
  "orchStep s (snd (createProbeTab oe s))"
  "fst (createProbeTab oe s) = Some tid \<Longrightarrow> tid \<in> created (news s (snd (createProbeTab oe s)))"
  by (auto simp: createProbeTab_def orchStep_def schedulerKept_def emit_def news_def
           split: option.splits if_splits)

lemma orchStep_navigateProbe:
  "orchStep s (snd (navigateProbe oe origin s))"
  by (auto simp: navigateProbe_def orchStep_def schedulerKept_def emit_def news_def Let_def
           split: option.splits if_splits)


lemma orchStep_lastResort:
  "orchStep s (emit [TabsCreate origin (Some tid), WaitLoaded tid t]
                 (s\<lparr>createdTabIds := insert tid (createdTabIds s)\<rparr>))"
  "tid \<in> created (news s (emit [TabsCreate origin (Some tid), WaitLoaded tid t]
                             (s\<lparr>createdTabIds := insert tid (createdTabIds s)\<rparr>)))"
  by (auto simp: orchStep_def schedulerKept_def emit_def news_def)

lemma created_news_mono:
  assumes "orchStep s s'" and "orchStep s' s''"
  shows "created (news s s') \<subseteq> created (news s s'')"
    and "created (news s' s'') \<subseteq> created (news s s'')"
proof -
  have "news s s'' = news s s' @ news s' s''"
    using assms by (intro news_append) (simp_all add: orchStep_def)
  then show "created (news s s') \<subseteq> created (news s s'')"
    and "created (news s' s'') \<subseteq> created (news s s'')" by simp_all
qed

lemma acquireTab_steps:
  "orchStep s (snd (acquireTab u oe origin s))
   \<and> (\<forall>pt tid. fst (acquireTab u oe origin s) = Inr (pt, Some tid)
         \<longrightarrow> tid \<in> created (news s (snd (acquireTab u oe origin s))))"
proof -
  define s0 where "s0 = checkProbeTab oe s"
  define c where "c = fst (createProbeTab oe s0)"
  define s1 where "s1 = snd (createProbeTab oe s0)"
  define s2 where "s2 = emit [TabsQuery] s1"
  define found where "found = (case tabsQuery2 oe of None \<Rightarrow> None
                               | Some tabs2 \<Rightarrow> find (atOrigin u origin) tabs2)"
  define nav where "nav = (case found of Some t \<Rightarrow> (Inr (Some t), s2)
                           | None \<Rightarrow> navigateProbe oe origin s2)"
  define s3 where "s3 = snd nav"
  have eq: "acquireTab u oe origin s =
      (case fst nav of
         Inl r \<Rightarrow> (Inl r, s3)
       | Inr (Some t) \<Rightarrow> (Inr (Some (tab_id t), c), s3)
       | Inr None \<Rightarrow>
           (case createPortal oe of
              Inl msg \<Rightarrow> (Inl (failed (''tab_create_failed:'' @ msg)),
                          emit [TabsCreate origin None] s3)
            | Inr tid \<Rightarrow> (Inr (Some tid, Some tid),
                          emit [TabsCreate origin (Some tid), WaitLoaded tid 15000]
                            (s3\<lparr>createdTabIds := insert tid (createdTabIds s3)\<rparr>))))"
    unfolding s3_def nav_def found_def s2_def s1_def c_def s0_def
    by (simp add: acquireTab_def Let_def split_def)
  have st01: "orchStep s s1"
    unfolding s1_def s0_def
    by (rule orchStep_trans [OF orchStep_checkProbeTab orchStep_createProbeTab(1)])
  have st12: "orchStep s1 s2"
    unfolding s2_def by (rule orchStep_emit) simp_all
  have st23: "orchStep s2 s3"
    unfolding s3_def nav_def by (cases found) (simp_all add: orchStep_navigateProbe)
  have st03: "orchStep s s3"
    by (rule orchStep_trans [OF orchStep_trans [OF st01 st12] st23])
  have c_in1: "tid \<in> created (news s s3)" if "c = Some tid" for tid
  proof -
    have "tid \<in> created (news s0 s1)"
      using that unfolding c_def s1_def by (rule orchStep_createProbeTab(2))
    moreover have "created (news s0 s1) \<subseteq> created (news s s1)"
      unfolding s0_def s1_def
      by (rule created_news_mono(2) [OF orchStep_checkProbeTab orchStep_createProbeTab(1)])
    moreover have "created (news s s1) \<subseteq> created (news s s3)"
      by (rule created_news_mono(1) [OF st01 orchStep_trans [OF st12 st23]])
    ultimately show ?thesis by blast
  qed
  have fail: "orchStep s3 (emit [TabsCreate origin None] s3)"
    by (rule orchStep_emit) simp_all
  show ?thesis
  proof (cases "fst nav")
    case (Inl r)
    then show ?thesis using st03 by (simp add: eq)
  next
    case (Inr o1)
    show ?thesis
    proof (cases o1)
      case (Some t)
      then show ?thesis using Inr st03 c_in1 by (simp add: eq)
    next
      case None
      show ?thesis
      proof (cases "createPortal oe")
        case (Inl msg)
        then show ?thesis
          using Inr None orchStep_trans [OF st03 fail] by (simp add: eq)
      next
        case (Inr tid)
        let ?s4 = "emit [TabsCreate origin (Some tid), WaitLoaded tid 15000]
                     (s3\<lparr>createdTabIds := insert tid (createdTabIds s3)\<rparr>)"
        have "orchStep s ?s4"
          by (rule orchStep_trans [OF st03 orchStep_lastResort(1)])
        moreover have "tid \<in> created (news s ?s4)"
          using created_news_mono(2) [OF st03 orchStep_lastResort(1)]
                orchStep_lastResort(2) by blast
        ultimately show ?thesis
          using \<open>fst nav = Inr o1\<close> None Inr by (simp add: eq)
      qed
    qed
  qed
qed


lemma orchStep_fieldCheckLoop: "orchStep s (snd (fieldCheckLoop oe tid k found s))"
proof (induction oe tid k found s rule: fieldCheckLoop.induct)
  case (1 oe tid checkAttempt found s)
  show ?case
  proof (cases "checkAttempt < MAX_FIELD_CHECK_TRIES \<and> \<not> found")
    case False
    then show ?thesis by (subst fieldCheckLoop.simps) auto
  next
    case True
    define s1 where "s1 = (if checkAttempt = 0
                   then emit (if reloadOk oe then [TabsReload tid, WaitLoaded tid 7000]
                              else [TabsReload tid]) s
                   else emit [Sleep FIELD_CHECK_INTERVAL_MS] s)"
    have a: "orchStep s s1" unfolding s1_def by (auto intro!: orchStep_emit)
    have b: "orchStep s1 (emit [ExecDetect tid] s1)" by (rule orchStep_emit) simp_all
    have c: "orchStep (emit [ExecDetect tid] s1)
               (snd (fieldCheckLoop oe tid (checkAttempt + 1)
                      (detectFieldsInTab (scans oe (checkAttempt + 1))) (emit [ExecDetect tid] s1)))"
      using "1.IH" [OF True s1_def] .
    have "fieldCheckLoop oe tid checkAttempt found s =
            fieldCheckLoop oe tid (checkAttempt + 1)
              (detectFieldsInTab (scans oe (checkAttempt + 1))) (emit [ExecDetect tid] s1)"
      using True unfolding s1_def by (subst fieldCheckLoop.simps) (simp add: Let_def)
    then show ?thesis using orchStep_trans [OF orchStep_trans [OF a b] c] by simp
  qed
qed

lemma detectAndInject_steps:
  "orchStep s (snd (detectAndInject oe portalTab createdTabId s))"
  "usedTabId (fst (detectAndInject oe portalTab createdTabId s)) = Some tid
     \<Longrightarrow> createdTabId = Some tid"
proof -
  show "orchStep s (snd (detectAndInject oe portalTab createdTabId s))"
  proof (cases portalTab)
    case None
    then show ?thesis by (simp add: detectAndInject_def)
  next
    case (Some t)
    define s1 where "s1 = snd (fieldCheckLoop oe t 0 (detectFieldsInTab (scans oe 0))
                                 (emit [ExecDetect t] s))"
    have a: "orchStep s s1"
      unfolding s1_def
      by (rule orchStep_trans [OF orchStep_emit orchStep_fieldCheckLoop]) simp_all
    have b: "orchStep s1 (emit [ExecInject t] s1)" by (rule orchStep_emit) simp_all
    have "snd (detectAndInject oe portalTab createdTabId s) = s1
          \<or> snd (detectAndInject oe portalTab createdTabId s) = emit [ExecInject t] s1"
      unfolding s1_def using Some
      by (simp add: detectAndInject_def split_def Let_def split: sum.splits option.splits)
    then show ?thesis using a orchStep_trans [OF a b] by auto
  qed
  show "usedTabId (fst (detectAndInject oe portalTab createdTabId s)) = Some tid
     \<Longrightarrow> createdTabId = Some tid"
    by (auto simp: detectAndInject_def split_def Let_def failed_def
             split: sum.splits option.splits if_splits)
qed


lemma openPortalTabAndSubmit_up:
  "isInternetUp (guardProbe oe) \<Longrightarrow>
     openPortalTabAndSubmit u oe cfg s =
       (Inr (failed ''already_up''),
        emit (CallOpenPortalTabAndSubmit # probeEvents (guardProbe oe)) s)"
  by (simp add: openPortalTabAndSubmit_def Let_def)

lemma openPortalTabAndSubmit_steps:
  "orchStep s (snd (openPortalTabAndSubmit u oe cfg s))
   \<and> CallOpenPortalTabAndSubmit \<in> set (news s (snd (openPortalTabAndSubmit u oe cfg s)))
   \<and> (\<forall>r tid. fst (openPortalTabAndSubmit u oe cfg s) = Inr r \<and> usedTabId r = Some tid
         \<longrightarrow> tid \<in> created (news s (snd (openPortalTabAndSubmit u oe cfg s))))
   \<and> (\<forall>r tabs pt. tabsQuery1 oe = Some tabs
           \<and> find (atOrigin u (portalOrigin u cfg)) tabs = Some pt
           \<and> fst (openPortalTabAndSubmit u oe cfg s) = Inr r \<longrightarrow> usedTabId r = None)"
  (is "?A \<and> ?B \<and> ?C \<and> ?D")
proof -
  define origin where "origin = portalOrigin u cfg"
  define s1 where "s1 = emit (CallOpenPortalTabAndSubmit # probeEvents (guardProbe oe)) s"
  define s2 where "s2 = emit [TabsQuery] s1"
  have st1: "orchStep s s1" unfolding s1_def by (rule orchStep_emit) simp_all
  have st2: "orchStep s1 s2" unfolding s2_def by (rule orchStep_emit) simp_all
  have st02: "orchStep s s2" by (rule orchStep_trans [OF st1 st2])
  have call1: "CallOpenPortalTabAndSubmit \<in> set (news s s1)" by (simp add: s1_def)
  have call: "CallOpenPortalTabAndSubmit \<in> set (news s s')" if "orchStep s1 s'" for s'
  proof -
    have "news s s' = news s s1 @ news s1 s'"
      using st1 that by (intro news_append) (simp_all add: orchStep_def)
    then show ?thesis using call1 by simp
  qed
  show ?thesis
  proof (cases "isInternetUp (guardProbe oe)")
    case True
    then show ?thesis
      using st1 call1 by (auto simp: openPortalTabAndSubmit_up s1_def failed_def)
  next
    case down: False
    show ?thesis
    proof (cases "tabsQuery1 oe")
      case None
      then have "openPortalTabAndSubmit u oe cfg s = (Inl (Thrown ''tabs.query''), s2)"
        using down by (simp add: openPortalTabAndSubmit_def Let_def s1_def s2_def)
      then show ?thesis using st02 call [OF st2] None by simp
    next
      case (Some tabs)
      show ?thesis
      proof (cases "find (atOrigin u origin) tabs")
        case (Some pt)
        define s3 where "s3 = emit [TabsDeactivate (tab_id pt)] s2"
        define res where "res = detectAndInject oe (Some (tab_id pt)) None s3"
        have eq: "openPortalTabAndSubmit u oe cfg s = (Inr (fst res), snd res)"
          using down \<open>tabsQuery1 oe = Some tabs\<close> Some
          unfolding res_def s3_def s2_def s1_def origin_def
          by (simp add: openPortalTabAndSubmit_def Let_def split_def)
        have st3: "orchStep s2 s3" unfolding s3_def by (rule orchStep_emit) simp_all
        have st4: "orchStep s3 (snd res)" unfolding res_def by (rule detectAndInject_steps(1))
        have st14: "orchStep s1 (snd res)"
          by (rule orchStep_trans [OF orchStep_trans [OF st2 st3] st4])
        have none: "usedTabId (fst res) = None"
          using detectAndInject_steps(2) [of oe "Some (tab_id pt)" None s3]
          unfolding res_def by (cases "usedTabId (fst (detectAndInject oe (Some (tab_id pt)) None s3))") auto
        show ?thesis
          using orchStep_trans [OF st1 st14] call [OF st14] none by (auto simp: eq)
      next
        case None
        define acq where "acq = acquireTab u oe origin s2"
        have st3: "orchStep s2 (snd acq)"
          unfolding acq_def using acquireTab_steps by blast
        have D: ?D using None \<open>tabsQuery1 oe = Some tabs\<close> by (simp add: origin_def)
        show ?thesis
        proof (cases "fst acq")
          case (Inl r)
          then have eq: "openPortalTabAndSubmit u oe cfg s = (Inr r, snd acq)"
            using down \<open>tabsQuery1 oe = Some tabs\<close> None
            unfolding acq_def s2_def s1_def origin_def
            by (simp add: openPortalTabAndSubmit_def Let_def split_def split: prod.splits)
          have "fst acq = Inl r \<Longrightarrow> usedTabId r = None"
            unfolding acq_def
            by (auto simp: acquireTab_def navigateProbe_def failed_def Let_def split_def
                     split: option.splits sum.splits if_splits)
          then have "usedTabId r = None" using Inl by simp
          then show ?thesis
            using orchStep_trans [OF st02 st3] call [OF orchStep_trans [OF st2 st3]] D
            by (auto simp: eq)
        next
          case (Inr p)
          obtain portalTab createdTabId where p: "p = (portalTab, createdTabId)" by (cases p)
          define res where "res = detectAndInject oe portalTab createdTabId (snd acq)"
          have eq: "openPortalTabAndSubmit u oe cfg s = (Inr (fst res), snd res)"
            using down \<open>tabsQuery1 oe = Some tabs\<close> None Inr p
            unfolding res_def acq_def s2_def s1_def origin_def
            by (simp add: openPortalTabAndSubmit_def Let_def split_def split: prod.splits)
          have st4: "orchStep (snd acq) (snd res)"
            unfolding res_def by (rule detectAndInject_steps(1))
          have st24: "orchStep s2 (snd res)" by (rule orchStep_trans [OF st3 st4])
          have C: "tid \<in> created (news s (snd res))" if "usedTabId (fst res) = Some tid" for tid
          proof -
            have "createdTabId = Some tid"
              using that unfolding res_def by (rule detectAndInject_steps(2))
            then have "tid \<in> created (news s2 (snd acq))"
              using acquireTab_steps [of s2 u oe origin] Inr p unfolding acq_def by blast
            then have "tid \<in> created (news s2 (snd res))"
              using created_news_mono(1) [OF st3 st4] by blast
            then show ?thesis using created_news_mono(2) [OF st02 st24] by blast
          qed
          show ?thesis
            using orchStep_trans [OF st02 st24] call [OF orchStep_trans [OF st2 st24]] C D
            by (auto simp: eq)
        qed
      qed
    qed
  qed
qed

subsection \<open>The scheduler's steps\<close>

lemma emit_Nil [simp]: "emit [] s = s"
  by (simp add: emit_def)

lemma emit_emit [simp]: "emit es' (emit es s) = emit (es @ es') s"
  by (simp add: emit_def)

lemma beforeSubmit_eq:
  "beforeSubmit u env force key s =
     (if \<not> force \<and> isInternetUp (probe1 env)
      then (Some True,
            (emit (waitEvents s @ probeEvents (probe1 env)) s)
              \<lparr>inFlightOrigins := inFlightOrigins s - {key}\<rparr>)
      else if keepaliveHit u env key
      then (Some False,
            (emit (waitEvents s @ (if force then [] else probeEvents (probe1 env))
                   @ keepaliveCheckEvents u env key) s)
              \<lparr>backoffSeconds := 5, inFlightOrigins := inFlightOrigins s - {key}\<rparr>)
      else (None,
            emit (waitEvents s @ (if force then [] else probeEvents (probe1 env))
                  @ keepaliveCheckEvents u env key) s))"
  by (simp add: beforeSubmit_def keepaliveHit_def keepaliveCheckEvents_def waitEvents_def
                Let_def emit_def split: option.splits)

lemma keepaliveCheckEvents_quiet [simp]:
  "created (keepaliveCheckEvents u env key) = {}"
  "closed (keepaliveCheckEvents u env key) = {}"
  "CallOpenPortalTabAndSubmit \<notin> set (keepaliveCheckEvents u env key)"
  "ExecInject tid \<notin> set (keepaliveCheckEvents u env key)"
  by (auto simp: keepaliveCheckEvents_def keepaliveEvents_def split: option.splits)

lemma waitEvents_quiet [simp]:
  "created (waitEvents s) = {}" "closed (waitEvents s) = {}"
  "CallOpenPortalTabAndSubmit \<notin> set (waitEvents s)"
  "ExecInject tid \<notin> set (waitEvents s)"
  by (auto simp: waitEvents_def)

lemma probeEvents_quiet2 [simp]:
  "CallOpenPortalTabAndSubmit \<notin> set (probeEvents p)"
  "ExecInject tid \<notin> set (probeEvents p)"
  by (auto simp: probeEvents_def)

lemma notifySuccess_eq:
  "notifySuccess env key s =
     (if cooldownOver (nowNotify env) (lastNotified s key) NOTIFY_SUCCESS_COOLDOWN_MS
      then (if notifyThrows env then (Some (Thrown ''notifications.create''), s)
            else (None, (emit [Notify successMessage] s)
                          \<lparr>lastSuccessNotifiedAt := setProp (lastSuccessNotifiedAt s) key (nowNotify env)\<rparr>))
      else (None, s))"
  by (simp add: notifySuccess_def Let_def emit_def)

lemma setProp_simps [simp]:
  "setProp (setProp obj key v) key w = setProp obj key w"
  "k \<noteq> key \<Longrightarrow> setProp obj key v k = obj k"
  by (auto simp: setProp_def)



lemma prelude_eq:
  "prelude u env force s =
     (if \<not> force \<and> isInternetUp (probe0 env)
      then (Inl (Inr True), emit (probeEvents (probe0 env)) s)
      else (case cachedConfig s of
              None \<Rightarrow>
                if notifyThrows env
                then (Inl (Inl (Thrown ''notifications.create'')),
                      emit (if force then [] else probeEvents (probe0 env)) s)
                else (Inl (Inr False),
                      emit ((if force then [] else probeEvents (probe0 env))
                            @ [Notify lockedMessage]) s)
            | Some cfg \<Rightarrow>
                if loginUrl cfg = '''' \<or> (originOf u (Some (loginUrl cfg)) \<in> inFlightOrigins s \<and> \<not> force)
                then (Inl (Inr False), emit (if force then [] else probeEvents (probe0 env)) s)
                else (Inr (cfg, originOf u (Some (loginUrl cfg))),
                      (emit (if force then [] else probeEvents (probe0 env)) s)
                        \<lparr>inFlightOrigins := insert (originOf u (Some (loginUrl cfg)))
                                              (inFlightOrigins s)\<rparr>)))"
  by (simp add: prelude_def Let_def emit_def split: option.splits)

lemma entry_state:
  "waitEvents ((emit es s)\<lparr>inFlightOrigins := X\<rparr>) = waitEvents s"
  "emit es' ((emit es s)\<lparr>inFlightOrigins := X\<rparr>) = (emit (es @ es') s)\<lparr>inFlightOrigins := X\<rparr>"
  by (simp_all add: waitEvents_def emit_def)

lemma submitOutcome_eq:
  "submitOutcome u env force s =
     (case cachedConfig s of
        None \<Rightarrow> None
      | Some cfg \<Rightarrow>
          if loginUrl cfg = '''' then None
          else if \<not> force \<and> (isInternetUp (probe0 env)
                              \<or> originOf u (Some (loginUrl cfg)) \<in> inFlightOrigins s
                              \<or> isInternetUp (probe1 env)) then None
          else if keepaliveHit u env (originOf u (Some (loginUrl cfg))) then None
          else (case openPortalTabAndSubmit u (orch env) cfg
                      (entryState u env force (originOf u (Some (loginUrl cfg))) s) of
                  (Inl e, s3) \<Rightarrow> None
                | (Inr r, s3) \<Rightarrow> Some (originOf u (Some (loginUrl cfg)), r, s3)))"
proof (cases "cachedConfig s")
  case None
  then show ?thesis by (simp add: submitOutcome_def prelude_eq)
next
  case (Some cfg)
  show ?thesis
  proof (cases force)
    case True
    then show ?thesis
      using Some entry_state [where es = "[]" and s = s]
      by (simp add: submitOutcome_def prelude_eq beforeSubmit_eq entryState_def entryEvents_def
               del: emit_emit)
  next
    case False
    then show ?thesis
      using Some
      by (simp add: submitOutcome_def prelude_eq beforeSubmit_eq entryState_def entryEvents_def
                    entry_state del: emit_emit)
  qed
qed

lemma submitOutcome_iff:
  "submitOutcome u env force s = Some (key, r, s3) \<longleftrightarrow>
     (\<exists>cfg. cachedConfig s = Some cfg \<and> loginUrl cfg \<noteq> ''''
        \<and> key = originOf u (Some (loginUrl cfg))
        \<and> (force \<or> (\<not> isInternetUp (probe0 env) \<and> key \<notin> inFlightOrigins s
                     \<and> \<not> isInternetUp (probe1 env)))
        \<and> \<not> keepaliveHit u env key
        \<and> openPortalTabAndSubmit u (orch env) cfg (entryState u env force key s) = (Inr r, s3))"
  by (cases "cachedConfig s")
     (auto simp: submitOutcome_eq split: sum.splits prod.splits if_splits)


lemma entry_state2:
  "(emit es s)\<lparr>inFlightOrigins := X, inFlightOrigins := Y\<rparr> = (emit es s)\<lparr>inFlightOrigins := Y\<rparr>"
  "inFlightOrigins ((emit es s)\<lparr>inFlightOrigins := X\<rparr>) = X"
  "(emit es s)\<lparr>inFlightOrigins := X, backoffSeconds := b, inFlightOrigins := Y\<rparr>
     = (emit es s)\<lparr>backoffSeconds := b, inFlightOrigins := Y\<rparr>"
  by (simp_all add: emit_def)

lemma checkAndLogin_eq:
  "checkAndLogin u env force s =
     (if \<not> force \<and> isInternetUp (probe0 env) then (True, emit (probeEvents (probe0 env)) s)
      else
        (case cachedConfig s of
           None \<Rightarrow>
             (False, emit ((if force then [] else probeEvents (probe0 env))
                           @ (if notifyThrows env then [] else [Notify lockedMessage])) s)
         | Some cfg \<Rightarrow>
             (let key = originOf u (Some (loginUrl cfg))
              in if loginUrl cfg = '''' \<or> (key \<in> inFlightOrigins s \<and> \<not> force)
                 then (False, emit (if force then [] else probeEvents (probe0 env)) s)
                 else if \<not> force \<and> isInternetUp (probe1 env)
                 then (True,
                       (emit (probeEvents (probe0 env) @ waitEvents s @ probeEvents (probe1 env)) s)
                         \<lparr>inFlightOrigins := inFlightOrigins s - {key}\<rparr>)
                 else if keepaliveHit u env key
                 then (False,
                       (emit (entryEvents u env force key s) s)
                         \<lparr>backoffSeconds := 5, inFlightOrigins := inFlightOrigins s - {key}\<rparr>)
                 else
                   (case openPortalTabAndSubmit u (orch env) cfg (entryState u env force key s) of
                      (Inl e, s3) \<Rightarrow> (False, s3\<lparr>inFlightOrigins := inFlightOrigins s3 - {key}\<rparr>)
                    | (Inr r, s3) \<Rightarrow>
                        (case fst (afterSubmit env key r s3) of Inl e \<Rightarrow> False | Inr b \<Rightarrow> b,
                         (snd (afterSubmit env key r s3))
                           \<lparr>inFlightOrigins :=
                              inFlightOrigins (snd (afterSubmit env key r s3)) - {key}\<rparr>)))))"
proof (cases "cachedConfig s")
  case None
  then show ?thesis by (simp add: checkAndLogin_def prelude_eq)
next
  case (Some cfg)
  show ?thesis
  proof (cases force)
    case True
    then show ?thesis
      using Some entry_state [where es = "[]" and s = s] entry_state2 [where es = "[]" and s = s]
      by (simp add: checkAndLogin_def attempt_def prelude_eq beforeSubmit_eq entryState_def
                    entryEvents_def Let_def split_def
               del: emit_emit split: sum.splits prod.splits)
  next
    case False
    then show ?thesis
      using Some
      by (simp add: checkAndLogin_def attempt_def prelude_eq beforeSubmit_eq entryState_def
                    entryEvents_def entry_state entry_state2 Let_def split_def
               del: emit_emit split: sum.splits prod.splits)
  qed
qed

lemma afterSubmit_registry:
  "prefix (trace s) (trace (snd (afterSubmit env key r s)))
   \<and> created (news s (snd (afterSubmit env key r s))) = {}
   \<and> closed (news s (snd (afterSubmit env key r s))) \<subseteq> {tid. usedTabId r = Some tid} \<inter> createdTabIds s
   \<and> createdTabIds (snd (afterSubmit env key r s))
       = createdTabIds s - closed (news s (snd (afterSubmit env key r s)))
   \<and> CallOpenPortalTabAndSubmit \<notin> set (news s (snd (afterSubmit env key r s)))"
proof (cases "ok r")
  case False
  then show ?thesis
    by (simp add: afterSubmit_def notifySuccess_eq Let_def emit_def news_def)
next
  case True
  show ?thesis
  proof (cases "usedTabId r")
    case None
    then show ?thesis
      using True
      by (simp add: afterSubmit_def notifySuccess_eq closeCreatedTab_def Let_def emit_def
                    news_def)
  next
    case (Some tid)
    then show ?thesis
      using True
      by (simp add: afterSubmit_def notifySuccess_eq closeCreatedTab_def Let_def emit_def
                    news_def)
  qed
qed

lemma entryEvents_quiet [simp]:
  "created (entryEvents u env force key s) = {}"
  "closed (entryEvents u env force key s) = {}"
  "CallOpenPortalTabAndSubmit \<notin> set (entryEvents u env force key s)"
  "ExecInject tid \<notin> set (entryEvents u env force key s)"
  by (simp_all add: entryEvents_def)

lemma entryState_simps [simp]:
  "trace (entryState u env force key s) = trace s @ entryEvents u env force key s"
  "createdTabIds (entryState u env force key s) = createdTabIds s"
  "backoffSeconds (entryState u env force key s) = backoffSeconds s"
  "failedAttemptsByOrigin (entryState u env force key s) = failedAttemptsByOrigin s"
  "lastSuccessNotifiedAt (entryState u env force key s) = lastSuccessNotifiedAt s"
  "cachedConfig (entryState u env force key s) = cachedConfig s"
  "inFlightOrigins (entryState u env force key s) = insert key (inFlightOrigins s)"
  "probeTabId (entryState u env force key s) = probeTabId s"
  by (simp_all add: entryState_def emit_def)

lemma news_entryState [simp]: "news s (entryState u env force key s) = entryEvents u env force key s"
  by (simp add: news_def)

text \<open>What one call does to the registry and to the tabs, on every path.\<close>

lemma checkAndLogin_registry:
  "prefix (trace s) (trace (snd (checkAndLogin u env force s)))
   \<and> closed (news s (snd (checkAndLogin u env force s)))
        \<subseteq> created (news s (snd (checkAndLogin u env force s)))
   \<and> createdTabIds (snd (checkAndLogin u env force s))
        \<subseteq> createdTabIds s \<union> created (news s (snd (checkAndLogin u env force s)))
   \<and> (\<forall>cfg tabs pt. cachedConfig s = Some cfg \<and> tabsQuery1 (orch env) = Some tabs
          \<and> find (atOrigin u (portalOrigin u cfg)) tabs = Some pt
        \<longrightarrow> closed (news s (snd (checkAndLogin u env force s))) = {})"
  (is "?P (snd (checkAndLogin u env force s))")
proof (cases "submitOutcome u env force s")
  case (Some out)
  obtain key r s3 where out: "out = (key, r, s3)" by (cases out)
  from Some out obtain cfg where cfg: "cachedConfig s = Some cfg" "loginUrl cfg \<noteq> ''''"
      "key = originOf u (Some (loginUrl cfg))"
      "force \<or> (\<not> isInternetUp (probe0 env) \<and> key \<notin> inFlightOrigins s \<and> \<not> isInternetUp (probe1 env))"
      "\<not> keepaliveHit u env key"
      and run: "openPortalTabAndSubmit u (orch env) cfg (entryState u env force key s) = (Inr r, s3)"
    by (auto simp: submitOutcome_iff)
  define s2 where "s2 = entryState u env force key s"
  define s4 where "s4 = snd (afterSubmit env key r s3)"
  have eq: "snd (checkAndLogin u env force s) = s4\<lparr>inFlightOrigins := inFlightOrigins s4 - {key}\<rparr>"
    using cfg run unfolding s4_def by (auto simp: checkAndLogin_eq Let_def)
  have st: "orchStep s2 s3"
    and used: "\<And>tid. usedTabId r = Some tid \<Longrightarrow> tid \<in> created (news s2 s3)"
    and reuse: "\<And>tabs pt. tabsQuery1 (orch env) = Some tabs
                  \<Longrightarrow> find (atOrigin u (portalOrigin u cfg)) tabs = Some pt
                  \<Longrightarrow> usedTabId r = None"
    using openPortalTabAndSubmit_steps [of s2 u "orch env" cfg] run unfolding s2_def by auto
  have p23: "prefix (trace s2) (trace s3)" and c23: "closed (news s2 s3) = {}"
    and r23: "createdTabIds s3 = createdTabIds s2 \<union> created (news s2 s3)"
    using st by (simp_all add: orchStep_def)
  have a: "prefix (trace s3) (trace s4)" "created (news s3 s4) = {}"
    "closed (news s3 s4) \<subseteq> {tid. usedTabId r = Some tid} \<inter> createdTabIds s3"
    "createdTabIds s4 = createdTabIds s3 - closed (news s3 s4)"
    using afterSubmit_registry [of s3 env key r] unfolding s4_def by simp_all
  have p02: "prefix (trace s) (trace s2)" by (simp add: s2_def)
  have n03: "news s s3 = entryEvents u env force key s @ news s2 s3"
    using news_append [OF p02 p23] by (simp add: s2_def)
  have p03: "prefix (trace s) (trace s3)" using p02 p23 by (rule prefix_order.trans)
  have n04: "news s s4 = entryEvents u env force key s @ news s2 s3 @ news s3 s4"
    using news_append [OF p03 a(1)] n03 by simp
  have p04: "prefix (trace s) (trace s4)" using p03 a(1) by (rule prefix_order.trans)
  have "?P (s4\<lparr>inFlightOrigins := inFlightOrigins s4 - {key}\<rparr>)"
    using p04 n04 c23 r23 a used reuse cfg(1)
    by (auto simp: news_def s2_def)
  then show ?thesis unfolding eq .
next
  case None
  show ?thesis
  proof (cases "cachedConfig s")
    case None
    then show ?thesis by (simp add: checkAndLogin_eq news_def emit_def)
  next
    case (Some cfg)
    define key where "key = originOf u (Some (loginUrl cfg))"
    show ?thesis
    proof (cases "loginUrl cfg = '''' \<or> (\<not> force \<and> (isInternetUp (probe0 env)
                  \<or> key \<in> inFlightOrigins s \<or> isInternetUp (probe1 env)))
                  \<or> keepaliveHit u env key")
      case True
      then show ?thesis
        using Some unfolding key_def
        by (auto simp: checkAndLogin_eq Let_def news_def emit_def)
    next
      case False
      define s2 where "s2 = entryState u env force key s"
      obtain res s3 where run: "openPortalTabAndSubmit u (orch env) cfg s2 = (res, s3)"
        by (cases "openPortalTabAndSubmit u (orch env) cfg s2")
      have "res = Inl e \<or> True" for e by simp
      from None Some False run obtain e where res: "res = Inl e"
        unfolding key_def s2_def by (cases res) (auto simp: submitOutcome_eq)
      have eq: "snd (checkAndLogin u env force s) = s3\<lparr>inFlightOrigins := inFlightOrigins s3 - {key}\<rparr>"
        using Some False run res unfolding key_def s2_def by (auto simp: checkAndLogin_eq Let_def)
      have st: "orchStep s2 s3"
        using openPortalTabAndSubmit_steps [of s2 u "orch env" cfg] run by auto
      have p23: "prefix (trace s2) (trace s3)" and c23: "closed (news s2 s3) = {}"
        and r23: "createdTabIds s3 = createdTabIds s2 \<union> created (news s2 s3)"
        using st by (simp_all add: orchStep_def)
      have p02: "prefix (trace s) (trace s2)" by (simp add: s2_def)
      have n03: "news s s3 = entryEvents u env force key s @ news s2 s3"
        using news_append [OF p02 p23] by (simp add: s2_def)
      have p03: "prefix (trace s) (trace s3)" using p02 p23 by (rule prefix_order.trans)
      have "?P (s3\<lparr>inFlightOrigins := inFlightOrigins s3 - {key}\<rparr>)"
        using p03 n03 c23 r23 by (auto simp: news_def s2_def)
      then show ?thesis unfolding eq .
    qed
  qed
qed

lemma submitOutcome_state:
  assumes "submitOutcome u env force s = Some (key, r, s3)"
  shows "backoffSeconds s3 = backoffSeconds s"
    and "failedAttemptsByOrigin s3 = failedAttemptsByOrigin s"
    and "lastSuccessNotifiedAt s3 = lastSuccessNotifiedAt s"
    and "cachedConfig s3 = cachedConfig s"
    and "inFlightOrigins s3 = insert key (inFlightOrigins s)"
    and "prefix (trace s) (trace s3)"
    and "news s s3 = entryEvents u env force key s @ news (entryState u env force key s) s3"
    and "CallOpenPortalTabAndSubmit \<in> set (news s s3)"
    and "closed (news s s3) = {}"
proof -
  from assms obtain cfg where
    run: "openPortalTabAndSubmit u (orch env) cfg (entryState u env force key s) = (Inr r, s3)"
    by (auto simp: submitOutcome_iff)
  let ?s2 = "entryState u env force key s"
  have st: "orchStep ?s2 s3" and call: "CallOpenPortalTabAndSubmit \<in> set (news ?s2 s3)"
    using openPortalTabAndSubmit_steps [of ?s2 u "orch env" cfg] run by auto
  have p23: "prefix (trace ?s2) (trace s3)" using st by (simp add: orchStep_def)
  have p02: "prefix (trace s) (trace ?s2)" by simp
  show "prefix (trace s) (trace s3)" using p02 p23 by (rule prefix_order.trans)
  show n: "news s s3 = entryEvents u env force key s @ news ?s2 s3"
    using news_append [OF p02 p23] by simp
  show "CallOpenPortalTabAndSubmit \<in> set (news s s3)" using call by (simp add: n)
  show "closed (news s s3) = {}" using st by (simp add: n orchStep_def)
  show "backoffSeconds s3 = backoffSeconds s"
    and "failedAttemptsByOrigin s3 = failedAttemptsByOrigin s"
    and "lastSuccessNotifiedAt s3 = lastSuccessNotifiedAt s"
    and "cachedConfig s3 = cachedConfig s"
    and "inFlightOrigins s3 = insert key (inFlightOrigins s)"
    using st by (simp_all add: orchStep_def schedulerKept_def)
qed

lemma checkAndLogin_submitted:
  assumes "submitOutcome u env force s = Some (key, r, s3)"
  shows "checkAndLogin u env force s =
           (case fst (afterSubmit env key r s3) of Inl e \<Rightarrow> False | Inr b \<Rightarrow> b,
            (snd (afterSubmit env key r s3))
              \<lparr>inFlightOrigins := inFlightOrigins (snd (afterSubmit env key r s3)) - {key}\<rparr>)"
  using assms by (auto simp: submitOutcome_iff checkAndLogin_eq Let_def)

lemma afterSubmit_others:
  "k \<noteq> key \<Longrightarrow> failedAttemptsByOrigin (snd (afterSubmit env key r s)) k = failedAttemptsByOrigin s k"
  "k \<noteq> key \<Longrightarrow> lastSuccessNotifiedAt (snd (afterSubmit env key r s)) k = lastSuccessNotifiedAt s k"
  "cachedConfig (snd (afterSubmit env key r s)) = cachedConfig s"
  "inFlightOrigins (snd (afterSubmit env key r s)) \<subseteq> inFlightOrigins s"
  by (cases "ok r"; cases "usedTabId r";
      simp add: afterSubmit_def notifySuccess_eq closeCreatedTab_def Let_def emit_def)+

text \<open>A call leaves the tables of every other origin alone, and never changes the configuration.\<close>

lemma checkAndLogin_others:
  "cachedConfig (snd (checkAndLogin u env force s)) = cachedConfig s"
  "cachedConfig s = None \<Longrightarrow> failedAttemptsByOrigin (snd (checkAndLogin u env force s)) = failedAttemptsByOrigin s"
  "cachedConfig s = Some cfg \<Longrightarrow> k \<noteq> originOf u (Some (loginUrl cfg)) \<Longrightarrow>
     failedAttemptsByOrigin (snd (checkAndLogin u env force s)) k = failedAttemptsByOrigin s k
     \<and> lastSuccessNotifiedAt (snd (checkAndLogin u env force s)) k = lastSuccessNotifiedAt s k"
proof -
  have *: "cachedConfig (snd (checkAndLogin u env force s)) = cachedConfig s
     \<and> (cachedConfig s = None \<longrightarrow> failedAttemptsByOrigin (snd (checkAndLogin u env force s)) = failedAttemptsByOrigin s)
     \<and> (\<forall>cfg k. cachedConfig s = Some cfg \<and> k \<noteq> originOf u (Some (loginUrl cfg)) \<longrightarrow>
     failedAttemptsByOrigin (snd (checkAndLogin u env force s)) k = failedAttemptsByOrigin s k
     \<and> lastSuccessNotifiedAt (snd (checkAndLogin u env force s)) k = lastSuccessNotifiedAt s k)"
  proof (cases "submitOutcome u env force s")
    case (Some out)
    obtain key r s3 where out: "submitOutcome u env force s = Some (key, r, s3)"
      using Some by (cases out) auto
    then obtain cfg where "cachedConfig s = Some cfg" "key = originOf u (Some (loginUrl cfg))"
      by (auto simp: submitOutcome_iff)
    then show ?thesis
      using submitOutcome_state [OF out] afterSubmit_others [where key = key and env = env and r = r and s = s3]
      by (simp add: checkAndLogin_submitted [OF out])
  next
    case None
    show ?thesis
    proof (cases "cachedConfig s")
      case None
      then show ?thesis by (simp add: checkAndLogin_eq emit_def)
    next
      case (Some cfg)
      define key where "key = originOf u (Some (loginUrl cfg))"
      let ?s2 = "entryState u env force key s"
      have st: "orchStep ?s2 (snd (openPortalTabAndSubmit u (orch env) cfg ?s2))"
        using openPortalTabAndSubmit_steps by blast
      show ?thesis
        using Some None st unfolding key_def
        by (auto simp: checkAndLogin_eq submitOutcome_eq Let_def emit_def orchStep_def
                       schedulerKept_def
                 split: if_splits prod.splits sum.splits)
    qed
  qed
  show "cachedConfig (snd (checkAndLogin u env force s)) = cachedConfig s"
  "cachedConfig s = None \<Longrightarrow> failedAttemptsByOrigin (snd (checkAndLogin u env force s)) = failedAttemptsByOrigin s"
  "cachedConfig s = Some cfg \<Longrightarrow> k \<noteq> originOf u (Some (loginUrl cfg)) \<Longrightarrow>
     failedAttemptsByOrigin (snd (checkAndLogin u env force s)) k = failedAttemptsByOrigin s k
     \<and> lastSuccessNotifiedAt (snd (checkAndLogin u env force s)) k = lastSuccessNotifiedAt s k"
    using * by auto
qed

lemmas model_defs =
  getProp_def setProp_def orZero_def plusOne_def atLeast_def inheritedNames_def attemptsOf_def
  lastNotified_def cooldownOver_def checkAndLogin_def prelude_def attempt_def beforeSubmit_def maybeTab_def afterSubmit_def
  notifySuccess_def closeCreatedTab_def friendlyBackoff_def settleBackoff_def
  openPortalTabAndSubmit_def portalOrigin_def acquireTab_def checkProbeTab_def
  createProbeTab_def navigateProbe_def detectAndInject_def detectFieldsInTab_def
  detectFrame_def detectorLikelyUser_def isPasswordInput_def testAny_def usernameWords_def
  toLowerCase_def lowerChar_def originOf_def isInternetUp_def probeEvents_def emit_def
  atOrigin_def isKeepaliveTab_def urlSaysKeepalive_def keepaliveEvents_def keepaliveWords_def
  failed_def startsWith_def onMessage_def onAlarm_def handle_def cacheConfig_def
  PROBE_COOLDOWN_MS_def PROBE_URL_def MAX_FIELD_CHECK_TRIES_def FIELD_CHECK_INTERVAL_MS_def
  NOTIFY_SUCCESS_COOLDOWN_MS_def

lemmas reading_defs =
  submitOutcome_def failedSubmit_def news_def keepaliveHit_def
  keepaliveCheckEvents_def waitEvents_def entryEvents_def entryState_def

lemmas demo_defs =
  demoUrlOrigin_def demoConfig_def otherConfig_def demoKey_def startUp_def configured_def
  down_def up_def loginForm_def orchRejected_def envRejected_def orchBlocked_def
  envBlocked_def rawConfig_def fiveFailuresAt_def envUp_def envRecovered_def envKeepalive_def
  envQueryRejected_def envNotifyThrows_def afterDemoFailure_def switchedOrigin_def
  envLoggedIn_def envReused_def protoConfig_def constructorConfig_def attemptRunning_def

lemma checkAndLogin_calls:
  assumes "cachedConfig s = Some cfg" and "loginUrl cfg \<noteq> ''''"
    and "key = originOf u (Some (loginUrl cfg))"
    and "force \<or> (\<not> isInternetUp (probe0 env) \<and> key \<notin> inFlightOrigins s
                   \<and> \<not> isInternetUp (probe1 env))"
    and "\<not> keepaliveHit u env key"
  shows "CallOpenPortalTabAndSubmit \<in> set (news s (snd (checkAndLogin u env force s)))"
proof -
  let ?s2 = "entryState u env force key s"
  obtain res s3 where run: "openPortalTabAndSubmit u (orch env) cfg ?s2 = (res, s3)"
    by (cases "openPortalTabAndSubmit u (orch env) cfg ?s2")
  have st: "orchStep ?s2 s3" and call: "CallOpenPortalTabAndSubmit \<in> set (news ?s2 s3)"
    using openPortalTabAndSubmit_steps [of ?s2 u "orch env" cfg] run by auto
  have p23: "prefix (trace ?s2) (trace s3)" using st by (simp add: orchStep_def)
  have p02: "prefix (trace s) (trace ?s2)" by simp
  have p03: "prefix (trace s) (trace s3)" using p02 p23 by (rule prefix_order.trans)
  have n03: "news s s3 = entryEvents u env force key s @ news ?s2 s3"
    using news_append [OF p02 p23] by simp
  show ?thesis
  proof (cases res)
    case (Inl e)
    then have "snd (checkAndLogin u env force s) = s3\<lparr>inFlightOrigins := inFlightOrigins s3 - {key}\<rparr>"
      using assms run by (auto simp: checkAndLogin_eq Let_def)
    then show ?thesis using n03 call by (simp add: news_def)
  next
    case (Inr r)
    let ?s4 = "snd (afterSubmit env key r s3)"
    have "snd (checkAndLogin u env force s) = ?s4\<lparr>inFlightOrigins := inFlightOrigins ?s4 - {key}\<rparr>"
      using assms run Inr by (auto simp: checkAndLogin_eq Let_def)
    moreover have "news s ?s4 = news s s3 @ news s3 ?s4"
      using news_append [OF p03] afterSubmit_registry [of s3 env key r] by blast
    ultimately show ?thesis using n03 call by (simp add: news_def)
  qed
qed

lemma injector_implies_detector: "injectorLikelyUser i \<Longrightarrow> detectorLikelyUser i"
  by (simp add: injectorLikelyUser_def detectorLikelyUser_def Let_def)

lemmas string_defs =
  testAny_def usernameWords_def toLowerCase_def lowerChar_def injectorLikelyUser_def
  detectorLikelyUser_def isPasswordInput_def plainText_def passwordBox_def emailBox_def Let_def







lemma probeEvents_Fetch: "\<exists>es. probeEvents p = Fetch # es"
  by (simp add: probeEvents_def)

lemma checkAndLogin_wait:
  assumes "fst (prelude u env force s) = Inr (cfg, key)"
  shows "prefix (trace s @ (if force then [] else probeEvents (probe0 env)) @ waitEvents s
                 @ [if force then TabsQuery else Fetch])
                (trace (snd (checkAndLogin u env force s)))"
proof -
  from assms have cfg: "cachedConfig s = Some cfg" "loginUrl cfg \<noteq> ''''"
      "key = originOf u (Some (loginUrl cfg))"
      "force \<or> (\<not> isInternetUp (probe0 env) \<and> key \<notin> inFlightOrigins s)"
    by (auto simp: prelude_eq split: option.splits if_splits)
  obtain es1 where p1: "probeEvents (probe1 env) = Fetch # es1"
    using probeEvents_Fetch by blast
  let ?pre = "trace s @ (if force then [] else probeEvents (probe0 env)) @ waitEvents s
                 @ [if force then TabsQuery else Fetch]"
  have entry: "prefix ?pre (trace s @ entryEvents u env force key s)"
    by (simp add: entryEvents_def keepaliveCheckEvents_def p1)
  show ?thesis
  proof (cases "\<not> force \<and> isInternetUp (probe1 env)")
    case True
    then show ?thesis using cfg by (simp add: checkAndLogin_eq Let_def emit_def p1)
  next
    case False
    show ?thesis
    proof (cases "keepaliveHit u env key")
      case True
      then have "trace (snd (checkAndLogin u env force s)) = trace s @ entryEvents u env force key s"
        using cfg False by (auto simp: checkAndLogin_eq Let_def emit_def)
      then show ?thesis using entry by simp
    next
      case hit: False
      let ?s2 = "entryState u env force key s"
      obtain res s3 where run: "openPortalTabAndSubmit u (orch env) cfg ?s2 = (res, s3)"
        by (cases "openPortalTabAndSubmit u (orch env) cfg ?s2")
      have st: "orchStep ?s2 s3"
        using openPortalTabAndSubmit_steps [of ?s2 u "orch env" cfg] run by auto
      have "prefix (trace s @ entryEvents u env force key s) (trace s3)"
        using st by (simp add: orchStep_def)
      then have p3: "prefix ?pre (trace s3)"
        by (rule prefix_order.trans [OF entry])
      show ?thesis
      proof (cases res)
        case (Inl e)
        then have "snd (checkAndLogin u env force s) = s3\<lparr>inFlightOrigins := inFlightOrigins s3 - {key}\<rparr>"
          using cfg False hit run by (auto simp: checkAndLogin_eq Let_def)
        then show ?thesis using p3 by simp
      next
        case (Inr r)
        let ?s4 = "snd (afterSubmit env key r s3)"
        have "snd (checkAndLogin u env force s) = ?s4\<lparr>inFlightOrigins := inFlightOrigins ?s4 - {key}\<rparr>"
          using cfg False hit run Inr by (auto simp: checkAndLogin_eq Let_def)
        moreover have "prefix (trace s3) (trace ?s4)"
          using afterSubmit_registry [of s3 env key r] by blast
        ultimately show ?thesis using prefix_order.trans [OF p3] by simp
      qed
    qed
  qed
qed

lemma checkAndLogin_inFlight:
  "inFlightOrigins (snd (checkAndLogin u env force s)) \<subseteq> inFlightOrigins s
   \<and> (\<forall>cfg. cachedConfig s = Some cfg \<and> loginUrl cfg \<noteq> ''''
          \<and> (force \<or> originOf u (Some (loginUrl cfg)) \<notin> inFlightOrigins s)
        \<longrightarrow> originOf u (Some (loginUrl cfg)) \<notin> inFlightOrigins (snd (checkAndLogin u env force s)))"
proof (cases "cachedConfig s")
  case None
  then show ?thesis by (simp add: checkAndLogin_eq emit_def)
next
  case (Some cfg)
  define key where "key = originOf u (Some (loginUrl cfg))"
  let ?s2 = "entryState u env force key s"
  obtain res s3 where run: "openPortalTabAndSubmit u (orch env) cfg ?s2 = (res, s3)"
    by (cases "openPortalTabAndSubmit u (orch env) cfg ?s2")
  have "orchStep ?s2 s3"
    using openPortalTabAndSubmit_steps [of ?s2 u "orch env" cfg] run by auto
  then have i3: "inFlightOrigins s3 = insert key (inFlightOrigins s)"
    by (simp add: orchStep_def schedulerKept_def)
  show ?thesis
  proof (cases "loginUrl cfg = '''' \<or> (\<not> force \<and> (isInternetUp (probe0 env)
                  \<or> key \<in> inFlightOrigins s \<or> isInternetUp (probe1 env)))
                  \<or> keepaliveHit u env key")
    case True
    then show ?thesis
      using Some unfolding key_def by (auto simp: checkAndLogin_eq Let_def emit_def)
  next
    case False
    define X where "X = (case res of Inl e \<Rightarrow> s3 | Inr r \<Rightarrow> snd (afterSubmit env key r s3))"
    have eq: "snd (checkAndLogin u env force s) = X\<lparr>inFlightOrigins := inFlightOrigins X - {key}\<rparr>"
      using Some False run unfolding key_def X_def
      by (cases res) (auto simp: checkAndLogin_eq Let_def)
    have "inFlightOrigins X \<subseteq> insert key (inFlightOrigins s)"
      unfolding X_def using i3 afterSubmit_others(4) [of env key _ s3]
      by (cases res) auto
    then show ?thesis using Some unfolding eq key_def by auto
  qed
qed

lemma handle_shape:
  "(\<exists>force. handle u env trig s = snd (checkAndLogin u env force s))
   \<or> (\<exists>c. handle u env trig s = s\<lparr>cachedConfig := c\<rparr>)"
proof (cases trig)
  case Alarm
  then show ?thesis by (auto simp: handle_def onAlarm_def)
next
  case (Message msg)
  have same: "\<exists>c. s = s\<lparr>cachedConfig := c\<rparr>"
    by (rule exI [where x = "cachedConfig s"]) simp
  show ?thesis
  proof (cases msg)
    case (SetPlainConfig c)
    then show ?thesis using Message by (auto simp: handle_def onMessage_def cacheConfig_def)
  next
    case DoLoginNow
    then show ?thesis using Message by (auto simp: handle_def onMessage_def split_def Let_def)
  next
    case ClearCache
    then show ?thesis using Message by (auto simp: handle_def onMessage_def)
  next
    case (PageIsPortal origin)
    then show ?thesis
      using Message same
      by (auto simp: handle_def onMessage_def split_def Let_def split: option.splits)
  next
    case UnknownMessage
    then show ?thesis using Message same by (auto simp: handle_def onMessage_def)
  qed
qed

lemma closeCreatedTab_member:
  "closed (news st (closeCreatedTab r st)) \<subseteq> createdTabIds st"
  by (auto simp: closeCreatedTab_def emit_def news_def split: option.splits)

section \<open>The claims\<close>




text \<open>
  C2 (as amended). Every attempt that gets past the checks before the attempt, forced or
  not, first sleeps for \<open>backoffSeconds\<close> seconds when that is positive, and goes on without
  a sleep when it is zero. Forcing skips the connectivity checks and the in-flight guard,
  not the wait.
\<close>

theorem backoff_wait_forced_or_not:
  "fst (prelude urlOrigin env force s) = Inr (cfg, key) \<longrightarrow>
     prefix (trace s @ (if force then [] else probeEvents (probe0 env))
             @ (if 0 < backoffSeconds s then [Sleep (backoffSeconds s * 1000)] else [])
             @ [if force then TabsQuery else Fetch])
            (trace (snd (checkAndLogin urlOrigin env force s)))"
  using checkAndLogin_wait [of urlOrigin env force s cfg key] by (simp add: waitEvents_def)

theorem backoff_wait_forced_or_not_witness:
  "fst (prelude demoUrlOrigin envBlocked True (configured\<lparr>backoffSeconds := 5\<rparr>))
     = Inr (demoConfig, demoKey)
   \<and> prefix [Sleep 5000, TabsQuery]
        (trace (snd (checkAndLogin demoUrlOrigin envBlocked True (configured\<lparr>backoffSeconds := 5\<rparr>))))"
proof -
  have p: "fst (prelude demoUrlOrigin envBlocked True (configured\<lparr>backoffSeconds := 5\<rparr>))
     = Inr (demoConfig, demoKey)"
    by (simp add: model_defs demo_defs Let_def)
  have t: "trace (configured\<lparr>backoffSeconds := 5\<rparr>) = []"
    "backoffSeconds (configured\<lparr>backoffSeconds := 5\<rparr>) = 5"
    by (simp_all add: demo_defs)
  show ?thesis
    using backoff_wait_forced_or_not [of demoUrlOrigin envBlocked True
                                        "configured\<lparr>backoffSeconds := 5\<rparr>" demoConfig demoKey]
      p t by simp
qed

theorem forced_attempt_waits_counterexample:
  "take 1 (trace (snd (onMessage demoUrlOrigin envBlocked DoLoginNow
                         (configured\<lparr>backoffSeconds := 5\<rparr>)))) = [Sleep 5000]"
  by (simp add: model_defs demo_defs Let_def)

text \<open>
  C3 (as amended). Take a forced trigger with a configuration cached whose login URL is not
  empty and whose origin key is not a name that a plain object inherits, no keepalive page
  open, creating a notification not throwing, and the internet up. It does call the
  orchestrator, which returns at its own connectivity guard before it touches any tab; the
  check after that failure finds the internet up, so the call answers success, with the
  failure counter of the origin at 0, the success notification sent unless one was sent in
  the last three minutes, and the registry and the probe tab as they were.
\<close>

theorem forced_trigger_while_up:
  "cachedConfig s = Some cfg \<and> loginUrl cfg \<noteq> '''' \<and> key = originOf urlOrigin (Some (loginUrl cfg))
   \<and> key \<notin> set inheritedNames
   \<and> isInternetUp (guardProbe (orch env)) \<and> isInternetUp (probeAfterFailure env)
   \<and> \<not> keepaliveHit urlOrigin env key \<and> \<not> notifyThrows env
   \<longrightarrow> resp_ok (fst (onMessage urlOrigin env DoLoginNow s))
       \<and> news s (snd (onMessage urlOrigin env DoLoginNow s))
           = (if 0 < backoffSeconds s then [Sleep (backoffSeconds s * 1000)] else [])
             @ keepaliveCheckEvents urlOrigin env key
             @ [CallOpenPortalTabAndSubmit] @ probeEvents (guardProbe (orch env))
             @ probeEvents (probeAfterFailure env)
             @ (if nowNotify env - (case lastSuccessNotifiedAt s key of Some t \<Rightarrow> t | None \<Rightarrow> 0)
                     > NOTIFY_SUCCESS_COOLDOWN_MS
                then [Notify successMessage] else [])
       \<and> failedAttemptsByOrigin (snd (onMessage urlOrigin env DoLoginNow s)) key = Some (Num 0)
       \<and> createdTabIds (snd (onMessage urlOrigin env DoLoginNow s)) = createdTabIds s
       \<and> probeTabId (snd (onMessage urlOrigin env DoLoginNow s)) = probeTabId s
       \<and> key \<notin> inFlightOrigins (snd (onMessage urlOrigin env DoLoginNow s))"
proof
  assume h: "cachedConfig s = Some cfg \<and> loginUrl cfg \<noteq> '''' \<and> key = originOf urlOrigin (Some (loginUrl cfg))
   \<and> key \<notin> set inheritedNames
   \<and> isInternetUp (guardProbe (orch env)) \<and> isInternetUp (probeAfterFailure env)
   \<and> \<not> keepaliveHit urlOrigin env key \<and> \<not> notifyThrows env"
  let ?s2 = "entryState urlOrigin env True key s"
  let ?s3 = "emit (CallOpenPortalTabAndSubmit # probeEvents (guardProbe (orch env))) ?s2"
  have run: "openPortalTabAndSubmit urlOrigin (orch env) cfg ?s2 = (Inr (failed ''already_up''), ?s3)"
    using h by (simp add: openPortalTabAndSubmit_up)
  have eq: "checkAndLogin urlOrigin env True s =
           (case fst (afterSubmit env key (failed ''already_up'') ?s3) of Inl e \<Rightarrow> False | Inr b \<Rightarrow> b,
            (snd (afterSubmit env key (failed ''already_up'') ?s3))
              \<lparr>inFlightOrigins := inFlightOrigins (snd (afterSubmit env key (failed ''already_up'') ?s3)) - {key}\<rparr>)"
    using h run by (auto simp: checkAndLogin_eq Let_def)
  show "resp_ok (fst (onMessage urlOrigin env DoLoginNow s))
       \<and> news s (snd (onMessage urlOrigin env DoLoginNow s))
           = (if 0 < backoffSeconds s then [Sleep (backoffSeconds s * 1000)] else [])
             @ keepaliveCheckEvents urlOrigin env key
             @ [CallOpenPortalTabAndSubmit] @ probeEvents (guardProbe (orch env))
             @ probeEvents (probeAfterFailure env)
             @ (if nowNotify env - (case lastSuccessNotifiedAt s key of Some t \<Rightarrow> t | None \<Rightarrow> 0)
                     > NOTIFY_SUCCESS_COOLDOWN_MS
                then [Notify successMessage] else [])
       \<and> failedAttemptsByOrigin (snd (onMessage urlOrigin env DoLoginNow s)) key = Some (Num 0)
       \<and> createdTabIds (snd (onMessage urlOrigin env DoLoginNow s)) = createdTabIds s
       \<and> probeTabId (snd (onMessage urlOrigin env DoLoginNow s)) = probeTabId s
       \<and> key \<notin> inFlightOrigins (snd (onMessage urlOrigin env DoLoginNow s))"
  proof -
    have ke: "key = originOf urlOrigin (Some (loginUrl cfg))" using h by blast
    have ni: "key \<notin> set inheritedNames" using h by blast
    then have np: "originOf urlOrigin (Some (loginUrl cfg)) \<noteq> ''__proto__''"
      unfolding ke by (auto simp: inheritedNames_def)
    have ln: "lastNotified X (originOf urlOrigin (Some (loginUrl cfg)))
                = Num (case lastSuccessNotifiedAt X (originOf urlOrigin (Some (loginUrl cfg))) of
                         Some t \<Rightarrow> t | None \<Rightarrow> 0)" for X
      using ni np unfolding ke
      by (simp add: lastNotified_def getProp_def orZero_def split: option.splits)
    show ?thesis
      using h np
      by (simp add: onMessage_def eq afterSubmit_def notifySuccess_eq failed_def Let_def ln
                    cooldownOver_def setProp_def
                    entryState_def entryEvents_def waitEvents_def emit_def news_def)
  qed
qed

theorem forced_trigger_while_up_witness:
  "cachedConfig configured = Some demoConfig \<and> loginUrl demoConfig \<noteq> ''''
   \<and> demoKey = originOf demoUrlOrigin (Some (loginUrl demoConfig))
   \<and> demoKey \<notin> set inheritedNames
   \<and> isInternetUp (guardProbe (orch envUp)) \<and> isInternetUp (probeAfterFailure envUp)
   \<and> \<not> keepaliveHit demoUrlOrigin envUp demoKey \<and> \<not> notifyThrows envUp
   \<and> resp_ok (fst (onMessage demoUrlOrigin envUp DoLoginNow configured))
   \<and> news configured (snd (onMessage demoUrlOrigin envUp DoLoginNow configured))
        = [TabsQuery, CallOpenPortalTabAndSubmit, Fetch, Fetch, Notify successMessage]
   \<and> failedAttemptsByOrigin (snd (onMessage demoUrlOrigin envUp DoLoginNow configured)) demoKey
        = Some (Num 0)"
proof -
  have h: "cachedConfig configured = Some demoConfig \<and> loginUrl demoConfig \<noteq> ''''
   \<and> demoKey = originOf demoUrlOrigin (Some (loginUrl demoConfig))
   \<and> demoKey \<notin> set inheritedNames
   \<and> isInternetUp (guardProbe (orch envUp)) \<and> isInternetUp (probeAfterFailure envUp)
   \<and> \<not> keepaliveHit demoUrlOrigin envUp demoKey \<and> \<not> notifyThrows envUp"
    by (simp add: model_defs reading_defs demo_defs Let_def)
  have v: "backoffSeconds configured = 0" "lastSuccessNotifiedAt configured demoKey = None"
    "keepaliveCheckEvents demoUrlOrigin envUp demoKey = [TabsQuery]"
    "probeEvents (guardProbe (orch envUp)) = [Fetch]"
    "probeEvents (probeAfterFailure envUp) = [Fetch]"
    "nowNotify envUp = 1000000" "NOTIFY_SUCCESS_COOLDOWN_MS = 180000"
    by (simp_all add: model_defs reading_defs demo_defs Let_def)
  show ?thesis
    using forced_trigger_while_up [of configured demoConfig demoKey demoUrlOrigin envUp] h v
    by simp
qed

theorem forced_trigger_while_up_counterexample:
  "resp_ok (fst (onMessage demoUrlOrigin envUp DoLoginNow configured))
   \<and> CallOpenPortalTabAndSubmit \<in> set (trace (snd (onMessage demoUrlOrigin envUp DoLoginNow configured)))
   \<and> backoffSeconds configured = 0
   \<and> backoffSeconds (snd (onMessage demoUrlOrigin envUp DoLoginNow configured)) = 2"
  by (simp add: model_defs demo_defs Let_def)

text \<open>
  C4. The code at a failing input: the orchestrator creates the probe tab 7, which lands on
  the portal, and the injected script fails there; the check that follows finds the internet
  up. The call answers success, resets the failure counter, notifies and clears the
  in-flight flag, but the backoff stays at the escalated value 2 and tab 7 stays open and
  registered.
\<close>

theorem recovered_after_failure_keeps_backoff_and_tab:
  "map_option (\<lambda>(key, r, s3). (key, ok r, usedTabId r))
       (submitOutcome demoUrlOrigin envRecovered False configured)
     = Some (demoKey, False, Some 7)
   \<and> isInternetUp (probeAfterFailure envRecovered)
   \<and> fst (checkAndLogin demoUrlOrigin envRecovered False configured)
   \<and> failedAttemptsByOrigin (snd (checkAndLogin demoUrlOrigin envRecovered False configured)) demoKey
        = Some (Num 0)
   \<and> Notify successMessage \<in> set (trace (snd (checkAndLogin demoUrlOrigin envRecovered False configured)))
   \<and> demoKey \<notin> inFlightOrigins (snd (checkAndLogin demoUrlOrigin envRecovered False configured))
   \<and> backoffSeconds (snd (checkAndLogin demoUrlOrigin envRecovered False configured)) = 2
   \<and> 7 \<in> createdTabIds (snd (checkAndLogin demoUrlOrigin envRecovered False configured))
   \<and> TabsRemove 7 \<notin> set (trace (snd (checkAndLogin demoUrlOrigin envRecovered False configured)))"
  by (simp add: model_defs reading_defs demo_defs fieldCheckLoop.simps Let_def)

text \<open>
  C5 (as amended). A call never leaves an origin in flight that was not in flight before.
  With a configuration cached whose login URL is not empty, a call that is forced, or that
  finds the origin not in flight at entry, returns with the origin not in flight, on every
  path. An exception thrown before or during the attempt becomes the answer failure, and
  the \<^verbatim>\<open>finally\<close> has cleared the flag by then. A call that is not forced and finds the origin
  in flight returns before the \<^verbatim>\<open>try\<close>, at the first connectivity check with success or at
  the guard against overlapping attempts with failure, and leaves the in-flight set as it
  found it: the flag stays with the attempt that set it.
\<close>

theorem in_flight_cleared_on_every_path:
  "inFlightOrigins (snd (checkAndLogin urlOrigin env force s)) \<subseteq> inFlightOrigins s
   \<and> (cachedConfig s = Some cfg \<and> loginUrl cfg \<noteq> ''''
        \<and> (force \<or> originOf urlOrigin (Some (loginUrl cfg)) \<notin> inFlightOrigins s)
      \<longrightarrow> originOf urlOrigin (Some (loginUrl cfg))
            \<notin> inFlightOrigins (snd (checkAndLogin urlOrigin env force s)))
   \<and> (cachedConfig s = Some cfg \<and> loginUrl cfg \<noteq> '''' \<and> \<not> force
        \<and> originOf urlOrigin (Some (loginUrl cfg)) \<in> inFlightOrigins s
      \<longrightarrow> inFlightOrigins (snd (checkAndLogin urlOrigin env force s)) = inFlightOrigins s
          \<and> fst (checkAndLogin urlOrigin env force s) = isInternetUp (probe0 env))
   \<and> (fst (prelude urlOrigin env force s) = Inl (Inl e)
      \<longrightarrow> \<not> fst (checkAndLogin urlOrigin env force s))
   \<and> (fst (prelude urlOrigin env force s) = Inr (cfg', key)
        \<and> fst (attempt urlOrigin env force cfg' key (snd (prelude urlOrigin env force s))) = Inl e'
      \<longrightarrow> \<not> fst (checkAndLogin urlOrigin env force s)
          \<and> key \<notin> inFlightOrigins (snd (checkAndLogin urlOrigin env force s)))"
proof (intro conjI impI)
  show "inFlightOrigins (snd (checkAndLogin urlOrigin env force s)) \<subseteq> inFlightOrigins s"
    using checkAndLogin_inFlight by blast
  show "originOf urlOrigin (Some (loginUrl cfg))
            \<notin> inFlightOrigins (snd (checkAndLogin urlOrigin env force s))"
    if "cachedConfig s = Some cfg \<and> loginUrl cfg \<noteq> ''''
        \<and> (force \<or> originOf urlOrigin (Some (loginUrl cfg)) \<notin> inFlightOrigins s)"
    using that checkAndLogin_inFlight [of urlOrigin env force s] by blast
  show "inFlightOrigins (snd (checkAndLogin urlOrigin env force s)) = inFlightOrigins s"
    and "fst (checkAndLogin urlOrigin env force s) = isInternetUp (probe0 env)"
    if "cachedConfig s = Some cfg \<and> loginUrl cfg \<noteq> '''' \<and> \<not> force
        \<and> originOf urlOrigin (Some (loginUrl cfg)) \<in> inFlightOrigins s"
    using that by (simp_all add: checkAndLogin_eq emit_def)
  show "\<not> fst (checkAndLogin urlOrigin env force s)"
    if "fst (prelude urlOrigin env force s) = Inl (Inl e)"
    using that by (cases "prelude urlOrigin env force s") (simp add: checkAndLogin_def)
  assume a: "fst (prelude urlOrigin env force s) = Inr (cfg', key)
        \<and> fst (attempt urlOrigin env force cfg' key (snd (prelude urlOrigin env force s))) = Inl e'"
  obtain s1 where p: "prelude urlOrigin env force s = (Inr (cfg', key), s1)"
    using a by (cases "prelude urlOrigin env force s") simp
  obtain s2 where t: "attempt urlOrigin env force cfg' key s1 = (Inl e', s2)"
    using a p by (cases "attempt urlOrigin env force cfg' key s1") simp
  have "key \<notin> inFlightOrigins (snd (attempt urlOrigin env force cfg' key s1))"
    by (simp add: attempt_def split_def Let_def)
  then show "\<not> fst (checkAndLogin urlOrigin env force s)"
    and "key \<notin> inFlightOrigins (snd (checkAndLogin urlOrigin env force s))"
    using p t by (simp_all add: checkAndLogin_def)
qed

theorem in_flight_cleared_on_every_path_witness:
  "cachedConfig configured = Some demoConfig \<and> loginUrl demoConfig \<noteq> ''''
   \<and> originOf demoUrlOrigin (Some (loginUrl demoConfig)) \<notin> inFlightOrigins configured
   \<and> fst (prelude demoUrlOrigin envNotifyThrows True startUp) = Inl (Inl (Thrown ''notifications.create''))
   \<and> \<not> fst (checkAndLogin demoUrlOrigin envNotifyThrows True startUp)
   \<and> fst (prelude demoUrlOrigin envQueryRejected False configured) = Inr (demoConfig, demoKey)
   \<and> fst (attempt demoUrlOrigin envQueryRejected False demoConfig demoKey
             (snd (prelude demoUrlOrigin envQueryRejected False configured)))
        = Inl (Thrown ''tabs.query'')
   \<and> \<not> fst (checkAndLogin demoUrlOrigin envQueryRejected False configured)
   \<and> demoKey \<notin> inFlightOrigins (snd (checkAndLogin demoUrlOrigin envQueryRejected False configured))
   \<and> originOf demoUrlOrigin (Some (loginUrl demoConfig))
        \<notin> inFlightOrigins (snd (checkAndLogin demoUrlOrigin envQueryRejected False configured))
   \<and> cachedConfig attemptRunning = Some demoConfig
   \<and> originOf demoUrlOrigin (Some (loginUrl demoConfig)) \<in> inFlightOrigins attemptRunning
   \<and> \<not> isInternetUp (probe0 envBlocked)
   \<and> inFlightOrigins (snd (checkAndLogin demoUrlOrigin envBlocked False attemptRunning))
        = inFlightOrigins attemptRunning
   \<and> \<not> fst (checkAndLogin demoUrlOrigin envBlocked False attemptRunning)"
proof -
  have h1: "cachedConfig configured = Some demoConfig \<and> loginUrl demoConfig \<noteq> ''''
     \<and> (False \<or> originOf demoUrlOrigin (Some (loginUrl demoConfig)) \<notin> inFlightOrigins configured)"
    by (simp add: model_defs demo_defs)
  have h2: "fst (prelude demoUrlOrigin envNotifyThrows True startUp)
              = Inl (Inl (Thrown ''notifications.create''))"
    by (simp add: model_defs demo_defs Let_def)
  have h3: "fst (prelude demoUrlOrigin envQueryRejected False configured) = Inr (demoConfig, demoKey)
     \<and> fst (attempt demoUrlOrigin envQueryRejected False demoConfig demoKey
             (snd (prelude demoUrlOrigin envQueryRejected False configured)))
        = Inl (Thrown ''tabs.query'')"
    by (simp add: model_defs demo_defs Let_def)
  have h4: "cachedConfig attemptRunning = Some demoConfig \<and> loginUrl demoConfig \<noteq> '''' \<and> \<not> False
     \<and> originOf demoUrlOrigin (Some (loginUrl demoConfig)) \<in> inFlightOrigins attemptRunning"
    "\<not> isInternetUp (probe0 envBlocked)"
    by (simp_all add: model_defs demo_defs)
  show ?thesis
    using h1 h2 h3 h4
      in_flight_cleared_on_every_path [of demoUrlOrigin envBlocked False attemptRunning demoConfig
          "Thrown ''notifications.create''" demoConfig demoKey "Thrown ''tabs.query''"]
      in_flight_cleared_on_every_path [of demoUrlOrigin envQueryRejected False configured demoConfig
          "Thrown ''notifications.create''" demoConfig demoKey "Thrown ''tabs.query''"]
      in_flight_cleared_on_every_path [of demoUrlOrigin envNotifyThrows True startUp demoConfig
          "Thrown ''notifications.create''" demoConfig demoKey "Thrown ''tabs.query''"]
    by simp
qed

theorem dropped_call_keeps_flag_counterexample:
  "cachedConfig attemptRunning = Some demoConfig
   \<and> originOf demoUrlOrigin (Some (loginUrl demoConfig)) = demoKey
   \<and> \<not> fst (checkAndLogin demoUrlOrigin envBlocked False attemptRunning)
   \<and> demoKey \<in> inFlightOrigins (snd (checkAndLogin demoUrlOrigin envBlocked False attemptRunning))
   \<and> fst (checkAndLogin demoUrlOrigin envUp False attemptRunning)
   \<and> demoKey \<in> inFlightOrigins (snd (checkAndLogin demoUrlOrigin envUp False attemptRunning))"
  by (simp add: model_defs demo_defs Let_def)

text \<open>
  C6. When the first open tab at the origin is classified as a keepalive page, the call
  answers failure with the backoff at 5, leaves every failure counter as it was, clears the
  in-flight flag, and neither calls the orchestrator nor injects anything.
\<close>

theorem keepalive_override:
  "cachedConfig s = Some cfg \<and> loginUrl cfg \<noteq> '''' \<and> key = originOf urlOrigin (Some (loginUrl cfg))
   \<and> (force \<or> (\<not> isInternetUp (probe0 env) \<and> key \<notin> inFlightOrigins s
                 \<and> \<not> isInternetUp (probe1 env)))
   \<and> maybeTab urlOrigin env key = Some t \<and> isKeepaliveTab (bodyText env) t
   \<longrightarrow> \<not> fst (checkAndLogin urlOrigin env force s)
       \<and> backoffSeconds (snd (checkAndLogin urlOrigin env force s)) = 5
       \<and> failedAttemptsByOrigin (snd (checkAndLogin urlOrigin env force s))
            = failedAttemptsByOrigin s
       \<and> key \<notin> inFlightOrigins (snd (checkAndLogin urlOrigin env force s))
       \<and> prefix (trace s) (trace (snd (checkAndLogin urlOrigin env force s)))
       \<and> CallOpenPortalTabAndSubmit \<notin> set (news s (snd (checkAndLogin urlOrigin env force s)))
       \<and> (\<forall>tid. ExecInject tid \<notin> set (news s (snd (checkAndLogin urlOrigin env force s))))"
  by (auto simp: checkAndLogin_eq keepaliveHit_def Let_def emit_def news_def)

theorem keepalive_override_witness:
  "cachedConfig (fiveFailuresAt 16) = Some demoConfig \<and> loginUrl demoConfig \<noteq> ''''
   \<and> demoKey = originOf demoUrlOrigin (Some (loginUrl demoConfig))
   \<and> \<not> isInternetUp (probe0 envKeepalive) \<and> demoKey \<notin> inFlightOrigins (fiveFailuresAt 16)
   \<and> \<not> isInternetUp (probe1 envKeepalive)
   \<and> maybeTab demoUrlOrigin envKeepalive demoKey
        = Some \<lparr>tab_id = 3, tab_url = Some ''http://172.16.2.1:1000/KeepAlive?x=1''\<rparr>
   \<and> isKeepaliveTab (bodyText envKeepalive)
        \<lparr>tab_id = 3, tab_url = Some ''http://172.16.2.1:1000/KeepAlive?x=1''\<rparr>
   \<and> \<not> fst (checkAndLogin demoUrlOrigin envKeepalive False (fiveFailuresAt 16))
   \<and> backoffSeconds (snd (checkAndLogin demoUrlOrigin envKeepalive False (fiveFailuresAt 16))) = 5
   \<and> failedAttemptsByOrigin (snd (checkAndLogin demoUrlOrigin envKeepalive False (fiveFailuresAt 16)))
        demoKey = Some (Num 5)"
proof -
  let ?t = "\<lparr>tab_id = 3, tab_url = Some ''http://172.16.2.1:1000/KeepAlive?x=1''\<rparr>"
  have h: "cachedConfig (fiveFailuresAt 16) = Some demoConfig \<and> loginUrl demoConfig \<noteq> ''''
   \<and> demoKey = originOf demoUrlOrigin (Some (loginUrl demoConfig))
   \<and> (False \<or> (\<not> isInternetUp (probe0 envKeepalive) \<and> demoKey \<notin> inFlightOrigins (fiveFailuresAt 16)
   \<and> \<not> isInternetUp (probe1 envKeepalive)))
   \<and> maybeTab demoUrlOrigin envKeepalive demoKey = Some ?t
   \<and> isKeepaliveTab (bodyText envKeepalive) ?t"
    by (simp add: model_defs reading_defs demo_defs Let_def)
  have v: "failedAttemptsByOrigin (fiveFailuresAt 16) demoKey = Some (Num 5)"
    by (simp add: demo_defs)
  show ?thesis
    using keepalive_override [of "fiveFailuresAt 16" demoConfig demoKey demoUrlOrigin False
                                 envKeepalive ?t] h v
    by simp
qed

text \<open>
  C7. Whatever wakes the worker (the alarm or any message): if the registry holds only tabs
  that the worker created, it still does afterwards; every tab closed during the call was
  created by the worker during that same call, so a tab that was open before is never
  closed; the one place that closes a tab closes only a member of the registry; and when
  the orchestrator's first query finds a tab at the portal origin and reuses it, nothing is
  closed.
\<close>

theorem only_created_tabs_are_closed:
  "(createdTabIds s \<subseteq> created (trace s)
      \<longrightarrow> createdTabIds (handle urlOrigin env trig s)
            \<subseteq> created (trace (handle urlOrigin env trig s)))
   \<and> prefix (trace s) (trace (handle urlOrigin env trig s))
   \<and> closed (news s (handle urlOrigin env trig s))
        \<subseteq> created (news s (handle urlOrigin env trig s))
   \<and> closed (news st (closeCreatedTab r st)) \<subseteq> createdTabIds st
   \<and> (cachedConfig s = Some cfg \<and> tabsQuery1 (orch env) = Some tabs
        \<and> find (atOrigin urlOrigin (portalOrigin urlOrigin cfg)) tabs = Some pt
      \<longrightarrow> closed (news s (handle urlOrigin env trig s)) = {})"
proof -
  consider force where "handle urlOrigin env trig s = snd (checkAndLogin urlOrigin env force s)"
    | c where "handle urlOrigin env trig s = s\<lparr>cachedConfig := c\<rparr>"
    using handle_shape [of urlOrigin env trig s] by blast
  then show ?thesis
  proof cases
    case 1
    let ?s' = "snd (checkAndLogin urlOrigin env force s)"
    note reg = checkAndLogin_registry [of s urlOrigin env force]
    have p: "prefix (trace s) (trace ?s')" using reg by blast
    have t: "trace ?s' = trace s @ news s ?s'" by (rule trace_news [OF p])
    have inv: "createdTabIds ?s' \<subseteq> created (trace ?s')" if "createdTabIds s \<subseteq> created (trace s)"
    proof -
      have "createdTabIds ?s' \<subseteq> createdTabIds s \<union> created (news s ?s')" using reg by blast
      also have "\<dots> \<subseteq> created (trace s) \<union> created (news s ?s')" using that by blast
      also have "\<dots> = created (trace ?s')" using arg_cong [OF t, of created] by simp
      finally show ?thesis .
    qed
    show ?thesis
      unfolding 1 using inv p reg closeCreatedTab_member [of st r] by blast
  next
    case 2
    show ?thesis unfolding 2 using closeCreatedTab_member [of st r] by (simp add: news_def)
  qed
qed

theorem only_created_tabs_are_closed_witness:
  "createdTabIds configured \<subseteq> created (trace configured)
   \<and> createdTabIds (handle demoUrlOrigin envLoggedIn Alarm configured) = {}
   \<and> created (trace (handle demoUrlOrigin envLoggedIn Alarm configured)) = {7}
   \<and> closed (news configured (handle demoUrlOrigin envLoggedIn Alarm configured)) = {7}
   \<and> cachedConfig configured = Some demoConfig
   \<and> tabsQuery1 (orch envReused)
        = Some [\<lparr>tab_id = 4, tab_url = Some ''http://172.16.2.1:1000/login''\<rparr>]
   \<and> find (atOrigin demoUrlOrigin (portalOrigin demoUrlOrigin demoConfig))
        [\<lparr>tab_id = 4, tab_url = Some ''http://172.16.2.1:1000/login''\<rparr>]
        = Some \<lparr>tab_id = 4, tab_url = Some ''http://172.16.2.1:1000/login''\<rparr>
   \<and> fst (checkAndLogin demoUrlOrigin envReused False configured)
   \<and> closed (news configured (handle demoUrlOrigin envReused Alarm configured)) = {}"
proof -
  let ?t = "\<lparr>tab_id = 4, tab_url = Some ''http://172.16.2.1:1000/login''\<rparr>"
  have h1: "createdTabIds configured \<subseteq> created (trace configured)"
    by (simp add: demo_defs)
  have v: "createdTabIds (handle demoUrlOrigin envLoggedIn Alarm configured) = {}"
    "created (trace (handle demoUrlOrigin envLoggedIn Alarm configured)) = {7}"
    "closed (news configured (handle demoUrlOrigin envLoggedIn Alarm configured)) = {7}"
    by (simp_all add: model_defs reading_defs demo_defs fieldCheckLoop.simps Let_def)
  have h2: "cachedConfig configured = Some demoConfig \<and> tabsQuery1 (orch envReused) = Some [?t]
        \<and> find (atOrigin demoUrlOrigin (portalOrigin demoUrlOrigin demoConfig)) [?t] = Some ?t"
    by (simp add: model_defs demo_defs Let_def)
  have ok: "fst (checkAndLogin demoUrlOrigin envReused False configured)"
    by (simp add: model_defs reading_defs demo_defs fieldCheckLoop.simps Let_def)
  show ?thesis
    using h1 v h2 ok
      only_created_tabs_are_closed [of configured demoUrlOrigin envLoggedIn Alarm configured
          "failed []" demoConfig "[?t]" ?t]
      only_created_tabs_are_closed [of configured demoUrlOrigin envReused Alarm configured
          "failed []" demoConfig "[?t]" ?t]
    by simp
qed

text \<open>
  C8 (as amended). \<open>backoffSeconds\<close> is one value shared by all origins. Per origin are the
  failure counter and the time of the last success notification: a call for one origin
  leaves those of every other origin as they were. The wait before the next attempt, for
  whichever configuration is cached by then, is the backoff that the previous call left.
\<close>

theorem backoff_shared_by_all_origins:
  "(cachedConfig s = Some cfg \<and> k \<noteq> originOf urlOrigin (Some (loginUrl cfg))
      \<longrightarrow> failedAttemptsByOrigin (snd (checkAndLogin urlOrigin env force s)) k
            = failedAttemptsByOrigin s k
          \<and> lastSuccessNotifiedAt (snd (checkAndLogin urlOrigin env force s)) k
            = lastSuccessNotifiedAt s k)
   \<and> (fst (prelude urlOrigin env2 force2
              (cacheConfig (Some cfg2) (snd (checkAndLogin urlOrigin env force s))))
         = Inr (cfg2, key2)
      \<longrightarrow> prefix
            (trace (snd (checkAndLogin urlOrigin env force s))
             @ (if force2 then [] else probeEvents (probe0 env2))
             @ (if 0 < backoffSeconds (snd (checkAndLogin urlOrigin env force s))
                then [Sleep (backoffSeconds (snd (checkAndLogin urlOrigin env force s)) * 1000)]
                else [])
             @ [if force2 then TabsQuery else Fetch])
            (trace (snd (checkAndLogin urlOrigin env2 force2
                          (cacheConfig (Some cfg2) (snd (checkAndLogin urlOrigin env force s)))))))"
proof (intro conjI impI)
  assume "cachedConfig s = Some cfg \<and> k \<noteq> originOf urlOrigin (Some (loginUrl cfg))"
  then show "failedAttemptsByOrigin (snd (checkAndLogin urlOrigin env force s)) k
            = failedAttemptsByOrigin s k"
    and "lastSuccessNotifiedAt (snd (checkAndLogin urlOrigin env force s)) k
            = lastSuccessNotifiedAt s k"
    using checkAndLogin_others(3) [of s cfg k urlOrigin env force] by simp_all
next
  let ?s' = "snd (checkAndLogin urlOrigin env force s)"
  assume "fst (prelude urlOrigin env2 force2 (cacheConfig (Some cfg2) ?s')) = Inr (cfg2, key2)"
  from checkAndLogin_wait [OF this]
  have P: "prefix (trace (cacheConfig (Some cfg2) ?s')
                   @ (if force2 then [] else probeEvents (probe0 env2))
                   @ waitEvents (cacheConfig (Some cfg2) ?s')
                   @ [if force2 then TabsQuery else Fetch])
            (trace (snd (checkAndLogin urlOrigin env2 force2 (cacheConfig (Some cfg2) ?s'))))" .
  have w: "waitEvents (cacheConfig (Some cfg2) ?s')
             = (if 0 < backoffSeconds ?s' then [Sleep (backoffSeconds ?s' * 1000)] else [])"
    by (simp add: waitEvents_def cacheConfig_def)
  have t: "trace (cacheConfig (Some cfg2) ?s') = trace ?s'"
    by (simp add: cacheConfig_def)
  show "prefix
            (trace ?s' @ (if force2 then [] else probeEvents (probe0 env2))
             @ (if 0 < backoffSeconds ?s' then [Sleep (backoffSeconds ?s' * 1000)] else [])
             @ [if force2 then TabsQuery else Fetch])
            (trace (snd (checkAndLogin urlOrigin env2 force2 (cacheConfig (Some cfg2) ?s'))))"
    using P unfolding w t .
qed

theorem backoff_shared_by_all_origins_witness:
  "cachedConfig configured = Some demoConfig
   \<and> ''http://10.0.0.1'' \<noteq> originOf demoUrlOrigin (Some (loginUrl demoConfig))
   \<and> failedAttemptsByOrigin (snd (checkAndLogin demoUrlOrigin envBlocked False configured))
        ''http://10.0.0.1'' = None
   \<and> fst (prelude demoUrlOrigin envBlocked False
             (cacheConfig (Some otherConfig)
                (snd (checkAndLogin demoUrlOrigin envBlocked False configured))))
        = Inr (otherConfig, ''http://10.0.0.1'')
   \<and> backoffSeconds (snd (checkAndLogin demoUrlOrigin envBlocked False configured)) = 2
   \<and> prefix (trace (snd (checkAndLogin demoUrlOrigin envBlocked False configured))
              @ [Fetch, Sleep 300, Fetch, Sleep 2000, Fetch])
        (trace (snd (checkAndLogin demoUrlOrigin envBlocked False
                       (cacheConfig (Some otherConfig)
                          (snd (checkAndLogin demoUrlOrigin envBlocked False configured))))))"
proof -
  let ?s' = "snd (checkAndLogin demoUrlOrigin envBlocked False configured)"
  have h1: "cachedConfig configured = Some demoConfig
     \<and> ''http://10.0.0.1'' \<noteq> originOf demoUrlOrigin (Some (loginUrl demoConfig))"
    by (simp add: model_defs demo_defs)
  have b: "backoffSeconds ?s' = 2"
    by (simp add: model_defs demo_defs Let_def)
  have h2: "fst (prelude demoUrlOrigin envBlocked False (cacheConfig (Some otherConfig) ?s'))
              = Inr (otherConfig, ''http://10.0.0.1'')"
    by (simp add: model_defs demo_defs Let_def)
  have v: "failedAttemptsByOrigin configured ''http://10.0.0.1'' = None"
    "probeEvents (probe0 envBlocked) = [Fetch, Sleep 300, Fetch]"
    by (simp_all add: model_defs demo_defs)
  show ?thesis
    using backoff_shared_by_all_origins [of configured demoConfig "''http://10.0.0.1''"
              demoUrlOrigin envBlocked False envBlocked False otherConfig "''http://10.0.0.1''"]
      h1 h2 b v
    by simp
qed

theorem backoff_per_origin_counterexample:
  "cachedConfig afterDemoFailure = Some demoConfig
   \<and> originOf demoUrlOrigin (Some (loginUrl demoConfig)) = ''http://172.16.2.1:1000''
   \<and> backoffSeconds configured = 0 \<and> backoffSeconds afterDemoFailure = 2
   \<and> cachedConfig switchedOrigin = Some otherConfig
   \<and> originOf demoUrlOrigin (Some (loginUrl otherConfig)) = ''http://10.0.0.1''
   \<and> failedAttemptsByOrigin switchedOrigin ''http://10.0.0.1'' = None
   \<and> take 4 (news switchedOrigin (handle demoUrlOrigin envBlocked Alarm switchedOrigin))
        = [Fetch, Sleep 300, Fetch, Sleep 2000]"
  by (simp add: model_defs reading_defs demo_defs Let_def)

text \<open>
  C9 (as amended). The injector's fallback test for a username input is narrower than the
  detector's: it wants the name, id or placeholder to match and the type to be text, email
  or empty, where the detector wants a match or the type text or email. Every input the
  injector's test accepts the detector's accepts too, and every input the detector's
  accepts is a likely username as the specification words it. When no input passes the
  injector's test, it takes the first input that is not a password input, else the first
  input.
\<close>

theorem injector_test_narrower:
  "(injectorLikelyUser i \<longrightarrow> detectorLikelyUser i)
   \<and> (detectorLikelyUser i \<longrightarrow> specLikelyUser i)
   \<and> (injectorLikelyUser i \<longrightarrow>
         inp_type i = ''text'' \<or> inp_type i = ''email'' \<or> inp_type i = '''')
   \<and> (find injectorLikelyUser inputs = Some c \<longrightarrow> userCandidate inputs = Some c)
   \<and> (find injectorLikelyUser inputs = None
        \<and> find (\<lambda>j. \<not> isPasswordInput j) inputs = Some d \<longrightarrow> userCandidate inputs = Some d)
   \<and> (find injectorLikelyUser (i0 # rest) = None
        \<and> find (\<lambda>j. \<not> isPasswordInput j) (i0 # rest) = None
       \<longrightarrow> userCandidate (i0 # rest) = Some i0)
   \<and> userCandidate [] = None"
  by (auto simp: injector_implies_detector userCandidate_def injectorLikelyUser_def
                 detectorLikelyUser_def specLikelyUser_def Let_def
           split: list.splits)

theorem injector_test_narrower_witness:
  "injectorLikelyUser emailBox \<and> detectorLikelyUser emailBox \<and> specLikelyUser emailBox
   \<and> find injectorLikelyUser [passwordBox, emailBox] = Some emailBox
   \<and> userCandidate [passwordBox, emailBox] = Some emailBox
   \<and> find injectorLikelyUser [passwordBox, plainText] = None
   \<and> find (\<lambda>j. \<not> isPasswordInput j) [passwordBox, plainText] = Some plainText
   \<and> userCandidate [passwordBox, plainText] = Some plainText
   \<and> find injectorLikelyUser [passwordBox] = None
   \<and> find (\<lambda>j. \<not> isPasswordInput j) [passwordBox] = None
   \<and> userCandidate [passwordBox] = Some passwordBox"
proof -
  have a: "injectorLikelyUser emailBox" by (simp add: string_defs)
  have b: "find injectorLikelyUser [passwordBox, emailBox] = Some emailBox"
    by (simp add: string_defs)
  have c: "find injectorLikelyUser [passwordBox, plainText] = None"
    "find (\<lambda>j. \<not> isPasswordInput j) [passwordBox, plainText] = Some plainText"
    by (simp_all add: string_defs)
  have d: "find injectorLikelyUser [passwordBox] = None"
    "find (\<lambda>j. \<not> isPasswordInput j) [passwordBox] = None"
    by (simp_all add: string_defs)
  show ?thesis
    using a b c d
      injector_test_narrower [of emailBox "[passwordBox, emailBox]" emailBox plainText passwordBox "[]"]
      injector_test_narrower [of emailBox "[passwordBox, plainText]" emailBox plainText passwordBox "[]"]
    by simp
qed

theorem injector_test_counterexample:
  "detectorLikelyUser plainText \<and> specLikelyUser plainText \<and> \<not> injectorLikelyUser plainText"
  by (simp add: string_defs specLikelyUser_def)

text \<open>
  C10. The origin key is defined for every input: the login URLs \<^verbatim>\<open>__proto__\<close> and
  \<^verbatim>\<open>constructor\<close> do not parse, so each is its own key, the in-flight set holds it during
  the attempt and the orchestrator is called. The failure counter is a plain object, and
  there the claim fails. A failed attempt with the key \<^verbatim>\<open>__proto__\<close> stores nothing: the
  table has no entry afterwards and the count still does not read as a number. With the key
  \<^verbatim>\<open>constructor\<close> the entry that is stored is not a number, the threshold of six failures
  is never met, and six failures in a row from a fresh worker end at a backoff of 60, where
  the key \<^verbatim>\<open>portal\<close> counts 1 after one failure and ends at 5 after six.
\<close>

theorem inherited_name_is_not_counted:
  "originOf demoUrlOrigin (Some (loginUrl protoConfig)) = ''__proto__''
   \<and> fst (prelude demoUrlOrigin envBlocked False (startUp\<lparr>cachedConfig := Some protoConfig\<rparr>))
        = Inr (protoConfig, ''__proto__'')
   \<and> inFlightOrigins
        (snd (prelude demoUrlOrigin envBlocked False (startUp\<lparr>cachedConfig := Some protoConfig\<rparr>)))
        = {''__proto__''}
   \<and> failedSubmit demoUrlOrigin envBlocked False (startUp\<lparr>cachedConfig := Some protoConfig\<rparr>)
   \<and> failedAttemptsByOrigin
        (snd (checkAndLogin demoUrlOrigin envBlocked False
                (startUp\<lparr>cachedConfig := Some protoConfig\<rparr>))) ''__proto__'' = None
   \<and> attemptsOf
        (snd (checkAndLogin demoUrlOrigin envBlocked False
                (startUp\<lparr>cachedConfig := Some protoConfig\<rparr>))) ''__proto__'' = NotNumber
   \<and> originOf demoUrlOrigin (Some (loginUrl constructorConfig)) = ''constructor''
   \<and> failedSubmit demoUrlOrigin envBlocked False (startUp\<lparr>cachedConfig := Some constructorConfig\<rparr>)
   \<and> failedAttemptsByOrigin
        (snd (checkAndLogin demoUrlOrigin envBlocked False
                (startUp\<lparr>cachedConfig := Some constructorConfig\<rparr>))) ''constructor''
        = Some NotNumber
   \<and> map_option backoffSeconds
        (afterFailures demoUrlOrigin
           [(envBlocked, False), (envBlocked, False), (envBlocked, False),
            (envBlocked, False), (envBlocked, False), (envBlocked, False)]
           (startUp\<lparr>cachedConfig := Some constructorConfig\<rparr>)) = Some 60
   \<and> originOf demoUrlOrigin (Some (loginUrl rawConfig)) = ''portal''
   \<and> failedAttemptsByOrigin
        (snd (checkAndLogin demoUrlOrigin envBlocked False
                (startUp\<lparr>cachedConfig := Some rawConfig\<rparr>))) ''portal'' = Some (Num 1)
   \<and> map_option backoffSeconds
        (afterFailures demoUrlOrigin
           [(envBlocked, False), (envBlocked, False), (envBlocked, False),
            (envBlocked, False), (envBlocked, False), (envBlocked, False)]
           (startUp\<lparr>cachedConfig := Some rawConfig\<rparr>)) = Some 5"
  by (simp add: model_defs reading_defs demo_defs Let_def)

end
